theory Spec2Isabelle
  imports Main
begin

section \<open>Data model (types.ts)\<close>

text \<open>
  The interfaces of \<^verbatim>\<open>types.ts\<close> become records; an optional field (\<^verbatim>\<open>x?: T\<close>) is an
  \<open>option\<close>. String-literal unions become datatypes. Field names are those of the
  source, prefixed where two interfaces share a name (\<^verbatim>\<open>id\<close>, \<^verbatim>\<open>status\<close>, ...).

  Numbers: every number the checkout code handles is a JavaScript double. Prices,
  quantities (an integer, by \<section>3 of the specification) and sums of money are
  integer-valued doubles and are held as \<open>int\<close>; every product and sum of the code is
  rounded to the nearest double as the code's is (subsection "JavaScript numbers"). A
  double operation whose result passes \<open>2 ^ 1024\<close> gives \<^verbatim>\<open>Infinity\<close>, which \<open>int\<close> does
  not hold: the theorems say nothing of values beyond \<open>2 ^ 1023\<close>. Timestamps are
  milliseconds since the epoch.
\<close>

record Product =
  p_id :: string
  p_name :: string
  p_description :: string
  p_price :: int
  p_currency :: string
  p_image_url :: "string option"
  p_in_stock :: bool

record LineItemRequest =
  req_item_id :: string
  req_quantity :: int

record Item =
  item_id :: string
  item_name :: string
  item_description :: string
  item_image_url :: "string option"

record LineItemResponse =
  li_id :: string
  li_item :: Item
  quantity :: int
  unit_price :: int
  total_price :: int

record PaymentInstrument =
  pi_id :: string
  handler_id :: string
  pi_type :: string
  display_name :: "string option"

record PaymentRequest =
  req_selected_instrument_id :: "string option"
  req_instruments :: "PaymentInstrument list option"

datatype PaymentStatus = pending | authorized | captured | failed

record PaymentResponse =
  selected_instrument_id :: "string option"
  instruments :: "PaymentInstrument list"
  payment_status :: PaymentStatus

text \<open>
  The body of Complete is \<^verbatim>\<open>{ payment_data: { handler_id, token? } }\<close>. The handler reads
  \<^verbatim>\<open>body.payment_data?.handler_id\<close>, so both \<^verbatim>\<open>payment_data\<close> and \<^verbatim>\<open>handler_id\<close> may be
  missing at run time: the body is a \<open>PaymentData option\<close>.
\<close>

record PaymentData =
  pd_handler_id :: "string option"
  pd_token :: "string option"

datatype CheckoutStatus =
  incomplete | requires_escalation | ready_for_complete | complete_in_progress
  | completed | canceled

record Totals =
  subtotal :: int
  tax :: int
  shipping :: int
  discount :: int
  total_amount :: int

record Link =
  rel :: string
  href :: string
  title :: "string option"

record Buyer =
  email :: "string option"
  buyer_name :: "string option"
  phone :: "string option"

datatype MessageType = Info | Warning | Error

record Message =
  msg_type :: MessageType
  code :: string
  message :: string

record OrderConfirmation =
  oc_id :: string
  oc_created_at :: int

record CheckoutCreateRequest =
  cr_line_items :: "LineItemRequest list option"
  cr_currency :: "string option"
  cr_payment :: "PaymentRequest option"
  cr_buyer :: "Buyer option"

record CheckoutUpdateRequest =
  ur_line_items :: "LineItemRequest list option"
  ur_payment :: "PaymentRequest option"
  ur_buyer :: "Buyer option"

record Capability =
  cap_name :: string
  cap_version :: string

record UcpHeader =
  ucp_version :: string
  ucp_capabilities :: "Capability list"

record CheckoutResponse =
  ucp :: UcpHeader
  co_id :: string
  status :: CheckoutStatus
  line_items :: "LineItemResponse list"
  currency :: string
  totals :: Totals
  payment :: PaymentResponse
  links :: "Link list"
  buyer :: "Buyer option"
  messages :: "Message list option"
  expires_at :: int
  continue_url :: "string option"
  order_ref :: "OrderConfirmation option"

datatype OrderStatus =
  order_pending | order_processing | order_shipped | order_delivered | order_canceled

record Order =
  order_id :: string
  checkout_id :: string
  order_status :: OrderStatus
  order_line_items :: "LineItemResponse list"
  order_totals :: Totals
  order_buyer :: "Buyer option"
  created_at :: int
  updated_at :: int

section \<open>Storage (data.ts)\<close>

text \<open>
  The three module-level \<^verbatim>\<open>Map\<close>s of \<^verbatim>\<open>data.ts\<close> are the state of the server. A handler
  takes the state and returns the new one with its response. The state also carries the
  time zone of the host, which \<^verbatim>\<open>getExpiresAt\<close> reads through \<^verbatim>\<open>getHours\<close> and
  \<^verbatim>\<open>setHours\<close>: \<open>localTZA st t isUTC\<close> is ECMAScript's \<^verbatim>\<open>LocalTZA(t, isUTC)\<close>, the offset
  of local time from UTC in milliseconds, at the UTC instant \<open>t\<close> when \<open>isUTC\<close> holds
  and at the local time \<open>t\<close> otherwise. No handler changes it.
\<close>

record server =
  products :: "string \<rightharpoonup> Product"
  checkoutSessions :: "string \<rightharpoonup> CheckoutResponse"
  orders :: "string \<rightharpoonup> Order"
  localTZA :: "int \<Rightarrow> bool \<Rightarrow> int"

definition getProduct :: "server \<Rightarrow> string \<Rightarrow> Product option" where
  "getProduct st i = products st i"

definition getCheckout :: "server \<Rightarrow> string \<Rightarrow> CheckoutResponse option" where
  "getCheckout st i = checkoutSessions st i"

definition saveCheckout :: "CheckoutResponse \<Rightarrow> server \<Rightarrow> server" where
  "saveCheckout checkout st =
     st\<lparr>checkoutSessions := (checkoutSessions st)(co_id checkout \<mapsto> checkout)\<rparr>"

definition saveOrder :: "Order \<Rightarrow> server \<Rightarrow> server" where
  "saveOrder ord st = st\<lparr>orders := (orders st)(order_id ord \<mapsto> ord)\<rparr>"

text \<open>The sample catalog of \<^verbatim>\<open>data.ts\<close>.\<close>

definition catalog :: "string \<rightharpoonup> Product" where
  "catalog = map_of
    [(''rose-bouquet'',
       \<lparr>p_id = ''rose-bouquet'', p_name = ''Classic Rose Bouquet'',
        p_description = ''A dozen fresh red roses, beautifully arranged'',
        p_price = 4999, p_currency = ''USD'',
        p_image_url = Some ''https://example.com/images/rose-bouquet.jpg'',
        p_in_stock = True\<rparr>),
     (''tulip-arrangement'',
       \<lparr>p_id = ''tulip-arrangement'', p_name = ''Spring Tulip Arrangement'',
        p_description = ''Colorful tulips in a decorative vase'',
        p_price = 3499, p_currency = ''USD'',
        p_image_url = Some ''https://example.com/images/tulips.jpg'',
        p_in_stock = True\<rparr>),
     (''orchid-plant'',
       \<lparr>p_id = ''orchid-plant'', p_name = ''Phalaenopsis Orchid'',
        p_description = ''Elegant white orchid in a ceramic pot'',
        p_price = 5999, p_currency = ''USD'',
        p_image_url = Some ''https://example.com/images/orchid.jpg'',
        p_in_stock = True\<rparr>),
     (''sunflower-bunch'',
       \<lparr>p_id = ''sunflower-bunch'', p_name = ''Sunflower Bunch'',
        p_description = ''Bright and cheerful sunflowers, 6 stems'',
        p_price = 2499, p_currency = ''USD'',
        p_image_url = Some ''https://example.com/images/sunflowers.jpg'',
        p_in_stock = True\<rparr>),
     (''mixed-wildflowers'',
       \<lparr>p_id = ''mixed-wildflowers'', p_name = ''Mixed Wildflower Bouquet'',
        p_description = ''A rustic arrangement of seasonal wildflowers'',
        p_price = 2999, p_currency = ''USD'',
        p_image_url = Some ''https://example.com/images/wildflowers.jpg'',
        p_in_stock = False\<rparr>)]"

text \<open>The server at its start, on a host whose local time is UTC.\<close>

definition initial_server :: server where
  "initial_server =
     \<lparr>products = catalog, checkoutSessions = Map.empty, orders = Map.empty,
      localTZA = (\<lambda>t isUTC. 0)\<rparr>"

section \<open>Helper functions (checkout.ts)\<close>

definition UCP_VERSION :: string where
  "UCP_VERSION = ''2026-01-11''"

definition CHECKOUT_TTL_HOURS :: int where
  "CHECKOUT_TTL_HOURS = 6"

subsection \<open>JavaScript numbers\<close>

text \<open>
  A double operation returns the exact result rounded to the nearest double, that is to
  53 significant bits, ties to the even significand. \<open>double_round\<close> does this to an
  integer; it is the identity up to \<open>2 ^ 53\<close>. Rounding to 53 bits does not depend on
  the scale, so the same function rounds a numerator over a fixed power of two.

  \<^verbatim>\<open>const TAX_RATE = 0.0875\<close> is the double nearest to \<open>7/80\<close>, which is
  \<open>3152519739159347 / 2 ^ 55\<close>, a little below \<open>7/80\<close>. The product
  \<^verbatim>\<open>subtotal * TAX_RATE\<close> is kept as a numerator over \<open>2 ^ 55\<close> (the subtotal being an
  integer, the product is not subnormal, and it is smaller than the subtotal).
  \<^verbatim>\<open>Math.round(x)\<close> is the integer nearest to \<open>x\<close>, ties towards \<open>+\<infinity>\<close>, which is
  \<open>\<lfloor>x + 1/2\<rfloor>\<close>.
\<close>

fun bit_length :: "nat \<Rightarrow> nat" where
  "bit_length n = (if n = 0 then 0 else Suc (bit_length (n div 2)))"

declare bit_length.simps [simp del]

definition round_to_53_bits :: "nat \<Rightarrow> nat" where
  "round_to_53_bits m =
     (let b = bit_length m in
      if b \<le> 53 then m
      else
        let sh = b - 53; q = m div 2 ^ sh; r = m mod 2 ^ sh; half = 2 ^ (sh - 1) in
        if half < r \<or> (r = half \<and> odd q) then (q + 1) * 2 ^ sh else q * 2 ^ sh)"

definition double_round :: "int \<Rightarrow> int" where
  "double_round p = sgn p * int (round_to_53_bits (nat \<bar>p\<bar>))"

definition js_times :: "int \<Rightarrow> int \<Rightarrow> int" where
  "js_times a b = double_round (a * b)"

definition js_plus :: "int \<Rightarrow> int \<Rightarrow> int" where
  "js_plus a b = double_round (a + b)"

definition js_minus :: "int \<Rightarrow> int \<Rightarrow> int" where
  "js_minus a b = double_round (a - b)"

definition TAX_RATE :: int where
  "TAX_RATE = 3152519739159347"

definition times_TAX_RATE :: "int \<Rightarrow> int" where
  "times_TAX_RATE s = double_round (s * TAX_RATE)"

definition Math_round :: "int \<Rightarrow> int" where
  "Math_round x = (2 * x + 2 ^ 55) div 2 ^ 56"

subsection \<open>resolveLineItems\<close>

text \<open>
  The \<^verbatim>\<open>for\<close> loop over the requests, with the two arrays it pushes to as accumulators.
  \<^verbatim>\<open>uuidv4()\<close> is random: \<open>rnd k\<close> is the value its \<open>k\<close>-th call returns during the
  request being served, and the loop returns the number of calls made so far.
\<close>

fun resolve_loop ::
  "server \<Rightarrow> string \<Rightarrow> (nat \<Rightarrow> string) \<Rightarrow> LineItemRequest list \<Rightarrow> nat \<Rightarrow>
   LineItemResponse list \<Rightarrow> string list \<Rightarrow> LineItemResponse list \<times> string list \<times> nat" where
  "resolve_loop st cur rnd [] k items errors = (items, errors, k)"
| "resolve_loop st cur rnd (req # rest) k items errors =
     (case getProduct st (req_item_id req) of
        None \<Rightarrow>
          resolve_loop st cur rnd rest k items
            (errors @ [''Product not found: '' @ req_item_id req])
      | Some product \<Rightarrow>
          if \<not> p_in_stock product then
            resolve_loop st cur rnd rest k items
              (errors @ [''Product out of stock: '' @ p_name product])
          else if p_currency product \<noteq> cur then
            resolve_loop st cur rnd rest k items
              (errors @ [''Currency mismatch for '' @ p_name product @ '': expected '' @ cur
                         @ '', got '' @ p_currency product])
          else
            resolve_loop st cur rnd rest (Suc k)
              (items @ [\<lparr>li_id = rnd k,
                         li_item = \<lparr>item_id = p_id product, item_name = p_name product,
                                    item_description = p_description product,
                                    item_image_url = p_image_url product\<rparr>,
                         quantity = req_quantity req,
                         unit_price = p_price product,
                         total_price = js_times (p_price product) (req_quantity req)\<rparr>])
              errors)"

definition resolveLineItems ::
  "server \<Rightarrow> (nat \<Rightarrow> string) \<Rightarrow> LineItemRequest list \<Rightarrow> string \<Rightarrow>
   LineItemResponse list \<times> string list \<times> nat" where
  "resolveLineItems st rnd requests cur = resolve_loop st cur rnd requests 0 [] []"

subsection \<open>calculateTotals\<close>

text \<open>
  \<^verbatim>\<open>reduce\<close> adds the total prices from 0 on, left to right; the total is
  \<^verbatim>\<open>((subtotal + tax) + shipping) - discount\<close>.
\<close>

definition calculateTotals :: "LineItemResponse list \<Rightarrow> Totals" where
  "calculateTotals lineItems =
     (let sub = foldl (\<lambda>sum item. js_plus sum (total_price item)) 0 lineItems;
          tx = Math_round (times_TAX_RATE sub);
          ship = (if sub \<ge> 5000 then 0 else 599);
          disc = 0
      in \<lparr>subtotal = sub, tax = tx, shipping = ship, discount = disc,
          total_amount = js_minus (js_plus (js_plus sub tx) ship) disc\<rparr>)"

subsection \<open>determineStatus\<close>

text \<open>
  \<^verbatim>\<open>hasPayment = checkout.payment?.selected_instrument_id\<close> is tested for truthiness:
  \<^verbatim>\<open>undefined\<close> and the empty string are falsy.
\<close>

definition truthy :: "string option \<Rightarrow> bool" where
  "truthy s = (case s of None \<Rightarrow> False | Some v \<Rightarrow> v \<noteq> [])"

definition determineStatus :: "CheckoutResponse \<Rightarrow> CheckoutStatus" where
  "determineStatus checkout =
     (let hasItems = (length (line_items checkout) > 0);
          hasPayment = truthy (selected_instrument_id (payment checkout))
      in if \<not> hasItems then incomplete
         else if \<not> hasPayment then incomplete
         else ready_for_complete)"

subsection \<open>getExpiresAt\<close>

text \<open>
  \<open>now\<close> is what \<^verbatim>\<open>new Date()\<close> reads, in milliseconds. \<^verbatim>\<open>getHours\<close> reads the hour of
  \<^verbatim>\<open>LocalTime(now)\<close>; \<^verbatim>\<open>setHours(h)\<close> keeps the day, minutes, seconds and milliseconds
  of \<^verbatim>\<open>LocalTime(now)\<close>, sets the hour (an hour of 24 or more runs on into the next
  day) and takes \<^verbatim>\<open>UTC\<close> of the result. With \<open>h\<close> the local hour plus 6, that is
  \<^verbatim>\<open>UTC(LocalTime(now) + 6 hours)\<close>: six hours of absolute time when the offset is the
  same at both ends, five or seven across a clock change.
\<close>

definition LocalTime :: "server \<Rightarrow> int \<Rightarrow> int" where
  "LocalTime st t = t + localTZA st t True"

definition UTC :: "server \<Rightarrow> int \<Rightarrow> int" where
  "UTC st t = t - localTZA st t False"

definition getExpiresAt :: "server \<Rightarrow> int \<Rightarrow> int" where
  "getExpiresAt st now = UTC st (LocalTime st now + CHECKOUT_TTL_HOURS * 3600000)"

section \<open>Checkout endpoints (checkout.ts)\<close>

text \<open>
  A handler answers with an HTTP status code and a JSON body: an error object
  \<^verbatim>\<open>{error}\<close>, the error object of Complete with \<^verbatim>\<open>current_status\<close> and \<^verbatim>\<open>hint\<close>, or the
  checkout. The parsed request body is an argument. \<open>now\<close> is the clock read by
  \<^verbatim>\<open>new Date()\<close> (the reads of one call are taken at one instant), \<open>rnd\<close> the values
  returned by \<^verbatim>\<open>uuidv4()\<close> during the call.

  \<^verbatim>\<open>getCheckout\<close> returns the stored object itself, and the handlers assign to its
  fields before they call \<^verbatim>\<open>saveCheckout\<close>. Every path that assigns a field reaches
  \<^verbatim>\<open>saveCheckout\<close> with no early return in between, and the object stored under a key is the
  one whose \<^verbatim>\<open>id\<close> is that key (\<open>store_ok\<close> below), so the store after the call is the
  one with the updated record written by \<open>saveCheckout\<close>.
\<close>

datatype Body =
  ErrorBody string
  | NotReadyBody string CheckoutStatus string
  | CheckoutBody CheckoutResponse

type_synonym Response = "nat \<times> Body"

definition default_instruments :: "PaymentInstrument list" where
  "default_instruments =
     [\<lparr>pi_id = ''mock-instrument-1'', handler_id = ''mock-payment-handler'',
       pi_type = ''token'', display_name = Some ''Test Payment''\<rparr>]"

definition legal_links :: "Link list" where
  "legal_links =
     [\<lparr>rel = ''terms'', href = ''https://example.com/terms'', title = Some ''Terms of Service''\<rparr>,
      \<lparr>rel = ''privacy'', href = ''https://example.com/privacy'', title = Some ''Privacy Policy''\<rparr>,
      \<lparr>rel = ''refund'', href = ''https://example.com/refund'', title = Some ''Refund Policy''\<rparr>]"

definition item_error :: "string \<Rightarrow> Message" where
  "item_error e = \<lparr>msg_type = Error, code = ''ITEM_ERROR'', message = e\<rparr>"

definition expired_message :: Message where
  "expired_message =
     \<lparr>msg_type = Error, code = ''EXPIRED'', message = ''Checkout session has expired''\<rparr>"

definition payment_failed_message :: Message where
  "payment_failed_message =
     \<lparr>msg_type = Error, code = ''PAYMENT_FAILED'', message = ''Payment was declined''\<rparr>"

definition canceled_message :: Message where
  "canceled_message =
     \<lparr>msg_type = Info, code = ''CANCELED'', message = ''Checkout was canceled''\<rparr>"

text \<open>\<^verbatim>\<open>checkout.messages || []\<close>\<close>

definition messages_or_empty :: "CheckoutResponse \<Rightarrow> Message list" where
  "messages_or_empty checkout = (case messages checkout of None \<Rightarrow> [] | Some ms \<Rightarrow> ms)"

subsection \<open>POST /checkout-sessions\<close>

definition create_checkout ::
  "server \<Rightarrow> int \<Rightarrow> (nat \<Rightarrow> string) \<Rightarrow> CheckoutCreateRequest \<Rightarrow> Response \<times> server" where
  "create_checkout st now rnd body =
     (case cr_line_items body of
        None \<Rightarrow> ((400, ErrorBody ''line_items is required and cannot be empty''), st)
      | Some reqs \<Rightarrow>
          if length reqs = 0 then
            ((400, ErrorBody ''line_items is required and cannot be empty''), st)
          else
          (case cr_currency body of
            None \<Rightarrow> ((400, ErrorBody ''currency is required''), st)
          | Some cur \<Rightarrow>
            if cur = [] then ((400, ErrorBody ''currency is required''), st)
            else
            let (items, errors, k) = resolveLineItems st rnd reqs cur;
                checkout =
                  \<lparr>ucp = \<lparr>ucp_version = UCP_VERSION,
                           ucp_capabilities =
                             [\<lparr>cap_name = ''dev.ucp.shopping.checkout'',
                               cap_version = UCP_VERSION\<rparr>]\<rparr>,
                   co_id = rnd k,
                   status = incomplete,
                   line_items = items,
                   currency = cur,
                   totals = calculateTotals items,
                   payment =
                     \<lparr>selected_instrument_id =
                        (case cr_payment body of None \<Rightarrow> None
                         | Some p \<Rightarrow> req_selected_instrument_id p),
                      instruments =
                        (case cr_payment body of None \<Rightarrow> default_instruments
                         | Some p \<Rightarrow>
                             (case req_instruments p of None \<Rightarrow> default_instruments
                              | Some ins \<Rightarrow> ins)),
                      payment_status = pending\<rparr>,
                   links = legal_links,
                   buyer = cr_buyer body,
                   messages =
                     (if length errors > 0 then Some (map item_error errors) else None),
                   expires_at = getExpiresAt st now,
                   continue_url = None,
                   order_ref = None\<rparr>;
                checkout = checkout\<lparr>status := determineStatus checkout\<rparr>
            in ((201, CheckoutBody checkout), saveCheckout checkout st)))"

subsection \<open>GET /checkout-sessions/:id\<close>

definition get_checkout :: "server \<Rightarrow> int \<Rightarrow> string \<Rightarrow> Response \<times> server" where
  "get_checkout st now i =
     (case getCheckout st i of
        None \<Rightarrow> ((404, ErrorBody ''Checkout session not found''), st)
      | Some checkout \<Rightarrow>
          if expires_at checkout < now then
            let checkout = checkout\<lparr>status := canceled\<rparr>;
                checkout = checkout\<lparr>messages :=
                             Some (messages_or_empty checkout @ [expired_message])\<rparr>
            in ((200, CheckoutBody checkout), saveCheckout checkout st)
          else ((200, CheckoutBody checkout), st))"

subsection \<open>PUT /checkout-sessions/:id\<close>

definition update_line_items ::
  "server \<Rightarrow> (nat \<Rightarrow> string) \<Rightarrow> CheckoutUpdateRequest \<Rightarrow> CheckoutResponse \<Rightarrow> CheckoutResponse"
  where
  "update_line_items st rnd body checkout =
     (case ur_line_items body of
        None \<Rightarrow> checkout
      | Some reqs \<Rightarrow>
          let (items, errors, k) = resolveLineItems st rnd reqs (currency checkout);
              checkout = checkout\<lparr>line_items := items\<rparr>;
              checkout = checkout\<lparr>totals := calculateTotals items\<rparr>
          in if length errors > 0
             then checkout\<lparr>messages := Some (map item_error errors)\<rparr>
             else checkout)"

definition update_payment :: "CheckoutUpdateRequest \<Rightarrow> CheckoutResponse \<Rightarrow> CheckoutResponse" where
  "update_payment body checkout =
     (case ur_payment body of
        None \<Rightarrow> checkout
      | Some p \<Rightarrow>
          checkout\<lparr>payment :=
            (payment checkout)
              \<lparr>selected_instrument_id := req_selected_instrument_id p,
               instruments :=
                 (case req_instruments p of None \<Rightarrow> instruments (payment checkout)
                  | Some ins \<Rightarrow> ins)\<rparr>\<rparr>)"

definition update_buyer :: "CheckoutUpdateRequest \<Rightarrow> CheckoutResponse \<Rightarrow> CheckoutResponse" where
  "update_buyer body checkout =
     (case ur_buyer body of
        None \<Rightarrow> checkout
      | Some b \<Rightarrow> checkout\<lparr>buyer := Some b\<rparr>)"

definition update_checkout ::
  "server \<Rightarrow> int \<Rightarrow> (nat \<Rightarrow> string) \<Rightarrow> string \<Rightarrow> CheckoutUpdateRequest \<Rightarrow> Response \<times> server"
  where
  "update_checkout st now rnd i body =
     (case getCheckout st i of
        None \<Rightarrow> ((404, ErrorBody ''Checkout session not found''), st)
      | Some checkout \<Rightarrow>
          if status checkout = completed then
            ((400, ErrorBody ''Cannot update completed checkout''), st)
          else if status checkout = canceled then
            ((400, ErrorBody ''Cannot update canceled checkout''), st)
          else
            let checkout = update_line_items st rnd body checkout;
                checkout = update_payment body checkout;
                checkout = update_buyer body checkout;
                checkout = checkout\<lparr>status := determineStatus checkout\<rparr>;
                checkout = checkout\<lparr>expires_at := getExpiresAt st now\<rparr>
            in ((200, CheckoutBody checkout), saveCheckout checkout st))"

subsection \<open>POST /checkout-sessions/:id/complete\<close>

text \<open>\<^verbatim>\<open>uuidv4().slice(0, 8).toUpperCase()\<close>\<close>

definition toUpperCase :: "string \<Rightarrow> string" where
  "toUpperCase s =
     map (\<lambda>c. let n = (of_char c :: nat) in
               if 97 \<le> n \<and> n \<le> 122 then char_of (n - 32) else c) s"

text \<open>
  The handler writes the store twice on the path that reaches settlement: once with
  the status \<^verbatim>\<open>complete_in_progress\<close> (\<open>complete_begin\<close>), and once with the outcome
  (\<open>complete_settle\<close>).
\<close>

definition complete_begin :: "CheckoutResponse \<Rightarrow> server \<Rightarrow> CheckoutResponse \<times> server" where
  "complete_begin checkout st =
     (let checkout = checkout\<lparr>status := complete_in_progress\<rparr>
      in (checkout, saveCheckout checkout st))"

definition complete_settle ::
  "int \<Rightarrow> (nat \<Rightarrow> string) \<Rightarrow> string option \<Rightarrow> CheckoutResponse \<times> server \<Rightarrow> Response \<times> server"
  where
  "complete_settle now rnd token cs =
     (let (checkout, st) = cs in
      if token = Some ''fail_token'' then
        let checkout = checkout\<lparr>status := ready_for_complete\<rparr>;
            checkout = checkout\<lparr>payment := (payment checkout)\<lparr>payment_status := failed\<rparr>\<rparr>;
            checkout = checkout\<lparr>messages := Some [payment_failed_message]\<rparr>
        in ((400, CheckoutBody checkout), saveCheckout checkout st)
      else
        let ord = \<lparr>order_id = ''ORD-'' @ toUpperCase (take 8 (rnd 0)),
                   checkout_id = co_id checkout,
                   order_status = order_pending,
                   order_line_items = line_items checkout,
                   order_totals = totals checkout,
                   order_buyer = buyer checkout,
                   created_at = now,
                   updated_at = now\<rparr>;
            st = saveOrder ord st;
            checkout = checkout\<lparr>status := completed\<rparr>;
            checkout = checkout\<lparr>payment := (payment checkout)\<lparr>payment_status := captured\<rparr>\<rparr>;
            checkout = checkout\<lparr>order_ref :=
                         Some \<lparr>oc_id = order_id ord, oc_created_at = created_at ord\<rparr>\<rparr>
        in ((200, CheckoutBody checkout), saveCheckout checkout st))"

definition complete_checkout ::
  "server \<Rightarrow> int \<Rightarrow> (nat \<Rightarrow> string) \<Rightarrow> string \<Rightarrow> PaymentData option \<Rightarrow> Response \<times> server"
  where
  "complete_checkout st now rnd i body =
     (case getCheckout st i of
        None \<Rightarrow> ((404, ErrorBody ''Checkout session not found''), st)
      | Some checkout \<Rightarrow>
          if status checkout = completed then
            ((400, ErrorBody ''Checkout already completed''), st)
          else if status checkout = canceled then
            ((400, ErrorBody ''Cannot complete canceled checkout''), st)
          else if status checkout \<noteq> ready_for_complete then
            ((400, NotReadyBody ''Checkout not ready for completion'' (status checkout)
                     ''Ensure all required fields are set (line_items, payment selection)''),
             st)
          else
            (case body of
               None \<Rightarrow> ((400, ErrorBody ''payment_data.handler_id is required''), st)
             | Some pd \<Rightarrow>
                 if \<not> truthy (pd_handler_id pd) then
                   ((400, ErrorBody ''payment_data.handler_id is required''), st)
                 else complete_settle now rnd (pd_token pd) (complete_begin checkout st)))"

subsection \<open>POST /checkout-sessions/:id/cancel\<close>

definition cancel_checkout :: "server \<Rightarrow> string \<Rightarrow> Response \<times> server" where
  "cancel_checkout st i =
     (case getCheckout st i of
        None \<Rightarrow> ((404, ErrorBody ''Checkout session not found''), st)
      | Some checkout \<Rightarrow>
          if status checkout = completed then
            ((400, ErrorBody ''Cannot cancel completed checkout''), st)
          else if status checkout = canceled then
            ((200, CheckoutBody checkout), st)
          else
            let checkout = checkout\<lparr>status := canceled\<rparr>;
                checkout = checkout\<lparr>messages :=
                             Some (messages_or_empty checkout @ [canceled_message])\<rparr>
            in ((200, CheckoutBody checkout), saveCheckout checkout st))"

section \<open>The store invariant\<close>

text \<open>
  Sessions enter the store through \<open>saveCheckout\<close> only, which files a session under
  its own id, and no handler assigns \<^verbatim>\<open>checkout.id\<close>.
\<close>

definition store_ok :: "server \<Rightarrow> bool" where
  "store_ok st = (\<forall>k c. checkoutSessions st k = Some c \<longrightarrow> co_id c = k)"

text \<open>
  The router: a request names its handler and carries what the handler reads (the
  clock, the random ids, the path parameter, the parsed body). The states the server
  can be in are those that \<open>run\<close> reaches from \<open>initial_server\<close>.
\<close>

datatype request =
  Create int "nat \<Rightarrow> string" CheckoutCreateRequest
  | Get int string
  | Update int "nat \<Rightarrow> string" string CheckoutUpdateRequest
  | Complete int "nat \<Rightarrow> string" string "PaymentData option"
  | Cancel string

fun serve :: "server \<Rightarrow> request \<Rightarrow> Response \<times> server" where
  "serve st (Create now rnd body) = create_checkout st now rnd body"
| "serve st (Get now i) = get_checkout st now i"
| "serve st (Update now rnd i body) = update_checkout st now rnd i body"
| "serve st (Complete now rnd i body) = complete_checkout st now rnd i body"
| "serve st (Cancel i) = cancel_checkout st i"

fun run :: "server \<Rightarrow> request list \<Rightarrow> server" where
  "run st [] = st"
| "run st (r # rs) = run (snd (serve st r)) rs"

section \<open>The specification's reading of the helpers\<close>

text \<open>
  The definitions of this section follow the words of the specification, not the code;
  the theorems below compare them with the code.
\<close>

subsection \<open>Line-item resolver (\<section>4.1)\<close>

text \<open>
  For each request, independently: an unknown product id, a product that is not in stock
  and a product whose currency is not the requested one give the error named in
  \<section>4.1, and the item is skipped.
\<close>

definition request_error :: "server \<Rightarrow> string \<Rightarrow> LineItemRequest \<Rightarrow> string option" where
  "request_error st cur req =
     (case getProduct st (req_item_id req) of
        None \<Rightarrow> Some (''Product not found: '' @ req_item_id req)
      | Some p \<Rightarrow>
          if \<not> p_in_stock p then Some (''Product out of stock: '' @ p_name p)
          else if p_currency p \<noteq> cur then
            Some (''Currency mismatch for '' @ p_name p @ '': expected '' @ cur @ '', got ''
                  @ p_currency p)
          else None)"

text \<open>
  Otherwise a line item is emitted: the snapshot of the product, the requested quantity
  and the catalog price as unit price. (Its total price is the subject of C3 and C10.)
\<close>

definition request_item ::
  "server \<Rightarrow> string \<Rightarrow> LineItemRequest \<Rightarrow> (Item \<times> int \<times> int) option" where
  "request_item st cur req =
     (case getProduct st (req_item_id req) of
        None \<Rightarrow> None
      | Some p \<Rightarrow>
          if p_in_stock p \<and> p_currency p = cur then
            Some (\<lparr>item_id = p_id p, item_name = p_name p,
                   item_description = p_description p, item_image_url = p_image_url p\<rparr>,
                  req_quantity req, p_price p)
          else None)"

text \<open>A line item without its generated id and its total price.\<close>

definition item_content :: "LineItemResponse \<Rightarrow> Item \<times> int \<times> int" where
  "item_content it = (li_item it, quantity it, unit_price it)"

text \<open>
  The product named by a request exists, is in stock and has the requested currency.
  The quantity has no part in it.
\<close>

definition product_accepted :: "server \<Rightarrow> string \<Rightarrow> string \<Rightarrow> bool" where
  "product_accepted st cur pid =
     (case getProduct st pid of None \<Rightarrow> False
      | Some p \<Rightarrow> p_in_stock p \<and> p_currency p = cur)"

subsection \<open>Totals calculator (\<section>4.2)\<close>

text \<open>
  \<open>subtotal \<times> 8.75%\<close> rounded half-up to the nearest integer: \<open>\<lfloor>s * 875 / 10000 + 1/2\<rfloor>\<close>.
\<close>

definition tax_half_up :: "int \<Rightarrow> int" where
  "tax_half_up s = (2 * (s * 875) + 10000) div 20000"

definition spec_totals :: "LineItemResponse list \<Rightarrow> Totals" where
  "spec_totals lineItems =
     (let sub = sum_list (map total_price lineItems);
          tx = tax_half_up sub;
          ship = (if sub \<ge> 5000 then 0 else 599)
      in \<lparr>subtotal = sub, tax = tx, shipping = ship, discount = 0,
          total_amount = sub + tx + ship - 0\<rparr>)"

subsection \<open>Status engine (\<section>4.3)\<close>

text \<open>
  The decision table, its rows in order. A selected instrument is present when the
  session holds a non-empty instrument id.
\<close>

definition instrument_selected :: "string option \<Rightarrow> bool" where
  "instrument_selected sel = (sel \<noteq> None \<and> sel \<noteq> Some [])"

definition status_table :: "LineItemResponse list \<Rightarrow> string option \<Rightarrow> CheckoutStatus" where
  "status_table items sel =
     (if items = [] then incomplete
      else if items \<noteq> [] \<and> \<not> instrument_selected sel then incomplete
      else ready_for_complete)"

section \<open>Sample requests and sessions\<close>

definition demo_uuid :: "nat \<Rightarrow> string" where
  "demo_uuid k = ''c0ffee00-'' @ replicate k (CHR ''a'')"

definition rose_item :: "int \<Rightarrow> string \<Rightarrow> LineItemResponse" where
  "rose_item q uid =
     \<lparr>li_id = uid,
      li_item = \<lparr>item_id = ''rose-bouquet'', item_name = ''Classic Rose Bouquet'',
                 item_description = ''A dozen fresh red roses, beautifully arranged'',
                 item_image_url = Some ''https://example.com/images/rose-bouquet.jpg''\<rparr>,
      quantity = q, unit_price = 4999, total_price = js_times 4999 q\<rparr>"

definition tulip_item :: "int \<Rightarrow> string \<Rightarrow> LineItemResponse" where
  "tulip_item q uid =
     \<lparr>li_id = uid,
      li_item = \<lparr>item_id = ''tulip-arrangement'', item_name = ''Spring Tulip Arrangement'',
                 item_description = ''Colorful tulips in a decorative vase'',
                 item_image_url = Some ''https://example.com/images/tulips.jpg''\<rparr>,
      quantity = q, unit_price = 3499, total_price = js_times 3499 q\<rparr>"

text \<open>Two rose bouquets in USD, the default instrument selected.\<close>

definition demo_create :: CheckoutCreateRequest where
  "demo_create =
     \<lparr>cr_line_items = Some [\<lparr>req_item_id = ''rose-bouquet'', req_quantity = 2\<rparr>],
      cr_currency = Some ''USD'',
      cr_payment = Some \<lparr>req_selected_instrument_id = Some ''mock-instrument-1'',
                         req_instruments = None\<rparr>,
      cr_buyer = None\<rparr>"

text \<open>The session that Create makes of it at time 0.\<close>

definition demo_session :: CheckoutResponse where
  "demo_session =
     \<lparr>ucp = \<lparr>ucp_version = ''2026-01-11'',
              ucp_capabilities =
                [\<lparr>cap_name = ''dev.ucp.shopping.checkout'', cap_version = ''2026-01-11''\<rparr>]\<rparr>,
      co_id = ''c0ffee00-a'',
      status = ready_for_complete,
      line_items = [rose_item 2 ''c0ffee00-''],
      currency = ''USD'',
      totals = \<lparr>subtotal = 9998, tax = 875, shipping = 0, discount = 0,
                total_amount = 10873\<rparr>,
      payment = \<lparr>selected_instrument_id = Some ''mock-instrument-1'',
                 instruments = default_instruments, payment_status = pending\<rparr>,
      links = legal_links,
      buyer = None,
      messages = None,
      expires_at = 21600000,
      continue_url = None,
      order_ref = None\<rparr>"

definition demo_server :: server where
  "demo_server = saveCheckout demo_session initial_server"

text \<open>Its state after a successful Complete at time 1000.\<close>

definition demo_payment_data :: "PaymentData option" where
  "demo_payment_data =
     Some \<lparr>pd_handler_id = Some ''mock-payment-handler'', pd_token = Some ''tok_visa''\<rparr>"

definition demo_order :: Order where
  "demo_order =
     \<lparr>order_id = ''ORD-C0FFEE00'',
      checkout_id = ''c0ffee00-a'',
      order_status = order_pending,
      order_line_items = [rose_item 2 ''c0ffee00-''],
      order_totals = \<lparr>subtotal = 9998, tax = 875, shipping = 0, discount = 0,
                      total_amount = 10873\<rparr>,
      order_buyer = None,
      created_at = 1000,
      updated_at = 1000\<rparr>"

definition demo_completed :: CheckoutResponse where
  "demo_completed =
     demo_session
       \<lparr>status := completed,
        payment := \<lparr>selected_instrument_id = Some ''mock-instrument-1'',
                    instruments = default_instruments, payment_status = captured\<rparr>,
        order_ref := Some \<lparr>oc_id = ''ORD-C0FFEE00'', oc_created_at = 1000\<rparr>\<rparr>"

definition demo_completed_server :: server where
  "demo_completed_server =
     \<lparr>products = catalog,
      checkoutSessions = [''c0ffee00-a'' \<mapsto> demo_completed],
      orders = [''ORD-C0FFEE00'' \<mapsto> demo_order],
      localTZA = (\<lambda>t isUTC. 0)\<rparr>"

text \<open>The sample session after a Get past its expiry.\<close>

definition demo_expired :: CheckoutResponse where
  "demo_expired = demo_session\<lparr>status := canceled, messages := Some [expired_message]\<rparr>"

text \<open>A request for \<open>q\<close> rose bouquets, and one for \<open>q\<close> bouquets and \<open>r\<close> tulip arrangements.\<close>

definition roses :: "int \<Rightarrow> LineItemRequest list" where
  "roses q = [\<lparr>req_item_id = ''rose-bouquet'', req_quantity = q\<rparr>]"

definition roses_and_tulips :: "int \<Rightarrow> int \<Rightarrow> LineItemRequest list" where
  "roses_and_tulips q r =
     [\<lparr>req_item_id = ''rose-bouquet'', req_quantity = q\<rparr>,
      \<lparr>req_item_id = ''tulip-arrangement'', req_quantity = r\<rparr>]"

definition create_request :: "LineItemRequest list \<Rightarrow> CheckoutCreateRequest" where
  "create_request reqs =
     \<lparr>cr_line_items = Some reqs, cr_currency = Some ''USD'', cr_payment = None,
      cr_buyer = None\<rparr>"

text \<open>
  The sample session after a Complete whose payment was declined, and the session that
  Create makes at time 0 of two rose bouquets with no instrument selected.
\<close>

definition demo_declined :: CheckoutResponse where
  "demo_declined =
     demo_session
       \<lparr>payment := \<lparr>selected_instrument_id = Some ''mock-instrument-1'',
                    instruments = default_instruments, payment_status = failed\<rparr>,
        messages := Some [payment_failed_message]\<rparr>"

definition demo_declined_server :: server where
  "demo_declined_server = saveCheckout demo_declined initial_server"

definition demo_unpaid :: CheckoutResponse where
  "demo_unpaid =
     demo_session
       \<lparr>status := incomplete,
        payment := \<lparr>selected_instrument_id = None,
                    instruments = default_instruments, payment_status = pending\<rparr>\<rparr>"

definition demo_unpaid_server :: server where
  "demo_unpaid_server = saveCheckout demo_unpaid initial_server"

definition card_instrument :: PaymentInstrument where
  "card_instrument =
     \<lparr>pi_id = ''card-1'', handler_id = ''card-handler'', pi_type = ''card'',
      display_name = None\<rparr>"

section \<open>Evaluation of the arithmetic and of the catalog\<close>

text \<open>
  \<open>TAX_RATE / 2 ^ 55\<close> has a 52-bit numerator, so it is a double, and it lies within
  \<open>2 ^ -57\<close> (half a unit in its last place) of \<open>7/80\<close>: it is the double that the
  literal \<^verbatim>\<open>0.0875\<close> denotes.
\<close>

lemmas tax_eval = Math_round_def times_TAX_RATE_def double_round_def round_to_53_bits_def
  TAX_RATE_def bit_length.simps Let_def

lemma TAX_RATE_nearest_double:
  "2 ^ 51 \<le> TAX_RATE \<and> TAX_RATE < 2 ^ 52 \<and> \<bar>80 * TAX_RATE - 7 * 2 ^ 55\<bar> \<le> 20"
  by (simp add: TAX_RATE_def)

lemma getProduct_rose:
  "getProduct initial_server ''rose-bouquet'' =
     Some \<lparr>p_id = ''rose-bouquet'', p_name = ''Classic Rose Bouquet'',
           p_description = ''A dozen fresh red roses, beautifully arranged'',
           p_price = 4999, p_currency = ''USD'',
           p_image_url = Some ''https://example.com/images/rose-bouquet.jpg'',
           p_in_stock = True\<rparr>"
  by (simp add: getProduct_def initial_server_def catalog_def)

lemma getProduct_tulip:
  "getProduct initial_server ''tulip-arrangement'' =
     Some \<lparr>p_id = ''tulip-arrangement'', p_name = ''Spring Tulip Arrangement'',
           p_description = ''Colorful tulips in a decorative vase'',
           p_price = 3499, p_currency = ''USD'',
           p_image_url = Some ''https://example.com/images/tulips.jpg'',
           p_in_stock = True\<rparr>"
  by (simp add: getProduct_def initial_server_def catalog_def)

lemma getProduct_wildflowers:
  "getProduct initial_server ''mixed-wildflowers'' =
     Some \<lparr>p_id = ''mixed-wildflowers'', p_name = ''Mixed Wildflower Bouquet'',
           p_description = ''A rustic arrangement of seasonal wildflowers'',
           p_price = 2999, p_currency = ''USD'',
           p_image_url = Some ''https://example.com/images/wildflowers.jpg'',
           p_in_stock = False\<rparr>"
  by (simp add: getProduct_def initial_server_def catalog_def)

lemma getProduct_unknown: "getProduct initial_server ''peony'' = None"
  by (simp add: getProduct_def initial_server_def catalog_def)

lemma tax_9998: "Math_round (times_TAX_RATE 9998) = 875"
  by (simp add: tax_eval)

lemma tax_83480: "Math_round (times_TAX_RATE 83480) = 7304"
  by (simp add: tax_eval)

lemma tax_0: "Math_round (times_TAX_RATE 0) = 0"
  by (simp add: tax_eval)

lemma tax_360: "Math_round (times_TAX_RATE 360) = 31 \<and> tax_half_up 360 = 32"
  by (simp add: tax_eval tax_half_up_def)

lemma tax_minus_4999: "Math_round (times_TAX_RATE (- 4999)) = - 437"
  by (simp add: tax_eval)

lemma tax_minus_551: "Math_round (times_TAX_RATE (- 551)) = - 48"
  by (simp add: tax_eval)

text \<open>Up to \<open>2 ^ 53\<close> every integer is a double, and the operations are exact.\<close>

lemma bit_length_le: "m < 2 ^ k \<Longrightarrow> bit_length m \<le> k"
proof (induction k arbitrary: m)
  case 0
  then show ?case by (simp add: bit_length.simps)
next
  case (Suc k)
  show ?case
  proof (cases "m = 0")
    case True
    then show ?thesis by (simp add: bit_length.simps)
  next
    case False
    from Suc.prems have "m div 2 < 2 ^ k" by simp
    from Suc.IH [OF this] False show ?thesis
      by (subst bit_length.simps) simp
  qed
qed

lemma round_to_53_bits_exact: "m \<le> 2 ^ 53 \<Longrightarrow> round_to_53_bits m = m"
proof (cases "m = 2 ^ 53")
  case True
  then show ?thesis by (simp add: round_to_53_bits_def bit_length.simps Let_def)
next
  case False
  assume "m \<le> 2 ^ 53"
  with False have "m < 2 ^ 53" by simp
  from bit_length_le [OF this] show ?thesis by (simp add: round_to_53_bits_def)
qed

lemma double_round_exact: "\<bar>x\<bar> \<le> 2 ^ 53 \<Longrightarrow> double_round x = x"
proof -
  assume "\<bar>x\<bar> \<le> 2 ^ 53"
  then have "nat \<bar>x\<bar> \<le> 2 ^ 53" by (simp add: nat_le_iff)
  from round_to_53_bits_exact [OF this] have "double_round x = sgn x * \<bar>x\<bar>"
    by (simp add: double_round_def)
  then show ?thesis by (simp add: mult_sgn_abs)
qed

lemma js_times_exact: "\<bar>a * b\<bar> \<le> 2 ^ 53 \<Longrightarrow> js_times a b = a * b"
  by (simp add: js_times_def double_round_exact)

lemma js_plus_exact: "\<bar>a + b\<bar> \<le> 2 ^ 53 \<Longrightarrow> js_plus a b = a + b"
  by (simp add: js_plus_def double_round_exact)

lemma js_minus_exact: "\<bar>a - b\<bar> \<le> 2 ^ 53 \<Longrightarrow> js_minus a b = a - b"
  by (simp add: js_minus_def double_round_exact)

lemmas js_exact = js_times_exact js_plus_exact js_minus_exact

text \<open>
  Beyond \<open>2 ^ 53\<close> they are not: 4999 times 1801800210991 is 9007199254744009, an odd
  number between two doubles, and the product is the even one below.
\<close>

lemma js_times_large:
  "js_times 4999 1801800210991 = 9007199254744008 \<and>
   js_times 4999 (- 1801800210991) = - 9007199254744008"
  by (simp add: js_times_def double_round_def round_to_53_bits_def bit_length.simps Let_def)

section \<open>The store\<close>

lemma getCheckout_saveCheckout:
  "getCheckout (saveCheckout c st) i = (if i = co_id c then Some c else getCheckout st i)"
  by (simp add: getCheckout_def saveCheckout_def)

lemma orders_saveCheckout: "orders (saveCheckout c st) = orders st"
  by (simp add: saveCheckout_def)

lemma products_saveCheckout: "products (saveCheckout c st) = products st"
  by (simp add: saveCheckout_def)

lemma getExpiresAt_saveCheckout: "getExpiresAt (saveCheckout c st) now = getExpiresAt st now"
  by (simp add: getExpiresAt_def LocalTime_def UTC_def saveCheckout_def)

lemma getExpiresAt_initial: "getExpiresAt initial_server now = now + 21600000"
  by (simp add: getExpiresAt_def LocalTime_def UTC_def initial_server_def
      CHECKOUT_TTL_HOURS_def)

lemma store_ok_initial: "store_ok initial_server"
  by (simp add: store_ok_def initial_server_def)

lemma store_ok_saveCheckout: "store_ok st \<Longrightarrow> store_ok (saveCheckout c st)"
  by (simp add: store_ok_def saveCheckout_def)

lemma store_ok_saveOrder: "store_ok st \<Longrightarrow> store_ok (saveOrder ord st)"
  by (simp add: store_ok_def saveOrder_def)

lemma store_ok_id: "store_ok st \<Longrightarrow> getCheckout st i = Some c \<Longrightarrow> co_id c = i"
  by (simp add: store_ok_def getCheckout_def)

lemma store_ok_demo: "store_ok demo_server"
  by (simp add: demo_server_def store_ok_saveCheckout store_ok_initial)

lemma getCheckout_demo: "getCheckout demo_server ''c0ffee00-a'' = Some demo_session"
  by (simp add: demo_server_def getCheckout_saveCheckout demo_session_def)

lemma store_ok_demo_completed: "store_ok demo_completed_server"
  by (simp add: store_ok_def demo_completed_server_def demo_completed_def demo_session_def)

lemma getCheckout_demo_completed:
  "getCheckout demo_completed_server ''c0ffee00-a'' = Some demo_completed"
  by (simp add: demo_completed_server_def getCheckout_def)

section \<open>The sample sessions are reachable\<close>

lemma totals_demo:
  "calculateTotals [rose_item 2 u] =
     \<lparr>subtotal = 9998, tax = 875, shipping = 0, discount = 0, total_amount = 10873\<rparr>"
  by (simp add: calculateTotals_def rose_item_def js_exact tax_9998)

lemma resolve_demo:
  "resolveLineItems initial_server demo_uuid
     [\<lparr>req_item_id = ''rose-bouquet'', req_quantity = 2\<rparr>] ''USD''
   = ([rose_item 2 ''c0ffee00-''], [], 1)"
  by (simp add: resolveLineItems_def getProduct_rose rose_item_def demo_uuid_def)

lemma create_demo:
  "create_checkout initial_server 0 demo_uuid demo_create
     = ((201, CheckoutBody demo_session), demo_server)"
  by (simp add: create_checkout_def demo_create_def resolve_demo totals_demo demo_session_def
      demo_server_def determineStatus_def truthy_def UCP_VERSION_def getExpiresAt_initial
      demo_uuid_def Let_def)

lemma toUpperCase_demo: "toUpperCase (take 8 (demo_uuid 0)) = ''C0FFEE00''"
  by (simp add: toUpperCase_def demo_uuid_def char_of_eq_iff)

lemma complete_demo:
  "complete_checkout demo_server 1000 demo_uuid ''c0ffee00-a'' demo_payment_data
     = ((200, CheckoutBody demo_completed), demo_completed_server)"
  by (simp add: complete_checkout_def getCheckout_demo demo_payment_data_def truthy_def
      complete_begin_def complete_settle_def toUpperCase_demo Let_def)
     (simp add: demo_session_def demo_completed_def demo_completed_server_def demo_order_def
      saveCheckout_def saveOrder_def demo_server_def initial_server_def)


lemma store_ok_demo_declined: "store_ok demo_declined_server"
  by (simp add: demo_declined_server_def store_ok_saveCheckout store_ok_initial)

lemma getCheckout_demo_declined:
  "getCheckout demo_declined_server ''c0ffee00-a'' = Some demo_declined"
  by (simp add: demo_declined_server_def getCheckout_saveCheckout demo_declined_def
      demo_session_def)

lemma decline_demo:
  "complete_checkout demo_server 1000 demo_uuid ''c0ffee00-a''
     (Some \<lparr>pd_handler_id = Some ''mock-payment-handler'', pd_token = Some ''fail_token''\<rparr>)
   = ((400, CheckoutBody demo_declined), demo_declined_server)"
  by (simp add: complete_checkout_def getCheckout_demo truthy_def complete_begin_def
      complete_settle_def Let_def)
     (simp add: demo_session_def demo_declined_def demo_declined_server_def saveCheckout_def
      demo_server_def)

lemma store_ok_demo_unpaid: "store_ok demo_unpaid_server"
  by (simp add: demo_unpaid_server_def store_ok_saveCheckout store_ok_initial)

lemma getCheckout_demo_unpaid:
  "getCheckout demo_unpaid_server ''c0ffee00-a'' = Some demo_unpaid"
  by (simp add: demo_unpaid_server_def getCheckout_saveCheckout demo_unpaid_def
      demo_session_def)

lemma create_unpaid:
  "create_checkout initial_server 0 demo_uuid (create_request (roses 2))
     = ((201, CheckoutBody demo_unpaid), demo_unpaid_server)"
  by (simp add: create_checkout_def create_request_def roses_def resolve_demo totals_demo
      demo_session_def demo_unpaid_def demo_unpaid_server_def determineStatus_def truthy_def
      UCP_VERSION_def getExpiresAt_initial demo_uuid_def Let_def)

section \<open>The store invariant holds in every reachable state\<close>

lemma store_ok_create: "store_ok st \<Longrightarrow> store_ok (snd (create_checkout st now rnd body))"
  by (simp add: create_checkout_def Let_def store_ok_saveCheckout
      split: option.splits prod.splits)

lemma store_ok_get: "store_ok st \<Longrightarrow> store_ok (snd (get_checkout st now i))"
  by (simp add: get_checkout_def Let_def store_ok_saveCheckout split: option.splits)

lemma store_ok_update: "store_ok st \<Longrightarrow> store_ok (snd (update_checkout st now rnd i body))"
  by (simp add: update_checkout_def Let_def store_ok_saveCheckout split: option.splits)

lemma store_ok_complete:
  "store_ok st \<Longrightarrow> store_ok (snd (complete_checkout st now rnd i body))"
  by (simp add: complete_checkout_def complete_begin_def complete_settle_def Let_def
      store_ok_saveCheckout store_ok_saveOrder split: option.splits)

lemma store_ok_cancel: "store_ok st \<Longrightarrow> store_ok (snd (cancel_checkout st i))"
  by (simp add: cancel_checkout_def Let_def store_ok_saveCheckout split: option.splits)

lemma store_ok_serve: "store_ok st \<Longrightarrow> store_ok (snd (serve st r))"
  by (cases r)
     (simp_all add: store_ok_create store_ok_get store_ok_update store_ok_complete
        store_ok_cancel)

lemma store_ok_run: "store_ok st \<Longrightarrow> store_ok (run st rs)"
  by (induction rs arbitrary: st) (simp_all add: store_ok_serve)

lemma store_ok_reachable: "store_ok (run initial_server rs)"
  by (rule store_ok_run [OF store_ok_initial])

lemma demo_server_reachable:
  "run initial_server [Create 0 demo_uuid demo_create] = demo_server"
  by (simp add: create_demo)

lemma demo_completed_server_reachable:
  "run initial_server
     [Create 0 demo_uuid demo_create, Complete 1000 demo_uuid ''c0ffee00-a'' demo_payment_data]
   = demo_completed_server"
  by (simp add: create_demo complete_demo)

section \<open>Line-item resolver\<close>

lemma item_content_record [simp]:
  "item_content \<lparr>li_id = a, li_item = b, quantity = c, unit_price = d, total_price = e\<rparr>
     = (b, c, d)"
  by (simp add: item_content_def)

lemma request_error_iff_no_item:
  "(request_error st cur req = None) = (request_item st cur req \<noteq> None)"
  by (simp add: request_error_def request_item_def split: option.splits)

lemma request_error_iff_accepted:
  "(request_error st cur req = None) = product_accepted st cur (req_item_id req)"
  by (simp add: request_error_def product_accepted_def split: option.splits)

lemma resolve_loop_spec:
  "resolve_loop st cur rnd reqs k items errors = (items', errors', k') \<Longrightarrow>
     errors' = errors @ List.map_filter (request_error st cur) reqs \<and>
     map item_content items' =
       map item_content items @ List.map_filter (request_item st cur) reqs \<and>
     k' = k + length (List.map_filter (request_item st cur) reqs) \<and>
     map li_id items' = map li_id items @ map rnd [k..<k']"
proof (induction reqs arbitrary: k items errors)
  case Nil
  then show ?case by simp
next
  case (Cons req rest)
  show ?case
  proof (cases "request_error st cur req")
    case None
    then obtain p where p: "getProduct st (req_item_id req) = Some p"
      "p_in_stock p" "p_currency p = cur"
      by (auto simp: request_error_def split: option.splits if_splits)
    let ?c = "(\<lparr>item_id = p_id p, item_name = p_name p, item_description = p_description p,
                 item_image_url = p_image_url p\<rparr>,
               req_quantity req, p_price p)"
    from p have it: "request_item st cur req = Some ?c"
      by (simp add: request_item_def)
    from Cons.prems p have
      "resolve_loop st cur rnd rest (Suc k)
         (items @ [\<lparr>li_id = rnd k,
                    li_item = \<lparr>item_id = p_id p, item_name = p_name p,
                               item_description = p_description p,
                               item_image_url = p_image_url p\<rparr>,
                    quantity = req_quantity req, unit_price = p_price p,
                    total_price = js_times (p_price p) (req_quantity req)\<rparr>]) errors
       = (items', errors', k')"
      by simp
    from Cons.IH [OF this] have ih:
      "errors' = errors @ List.map_filter (request_error st cur) rest"
      "map item_content items' =
         map item_content items @ [?c] @ List.map_filter (request_item st cur) rest"
      "k' = Suc k + length (List.map_filter (request_item st cur) rest)"
      "map li_id items' = map li_id items @ [rnd k] @ map rnd [Suc k..<k']"
      by simp_all
    from ih(3) have "k < k'" by simp
    then have "[k..<k'] = k # [Suc k..<k']" by (rule upt_conv_Cons)
    with ih None it show ?thesis by simp
  next
    case (Some e)
    then have no: "request_item st cur req = None"
      by (auto simp: request_error_def request_item_def split: option.splits if_splits)
    from Some Cons.prems have
      "resolve_loop st cur rnd rest k items (errors @ [e]) = (items', errors', k')"
      by (auto simp: request_error_def split: option.splits if_splits)
    from Cons.IH [OF this] Some no show ?thesis by simp
  qed
qed

text \<open>Every item the loop adds has the double product of its unit price and quantity.\<close>

lemma resolve_loop_total_price:
  "resolve_loop st cur rnd reqs k items errors = (items', errors', k') \<Longrightarrow>
   \<forall>it \<in> set items. total_price it = js_times (unit_price it) (quantity it) \<Longrightarrow>
   \<forall>it \<in> set items'. total_price it = js_times (unit_price it) (quantity it)"
proof (induction reqs arbitrary: k items errors)
  case Nil
  then show ?case by simp
next
  case (Cons req rest)
  show ?case
  proof (cases "getProduct st (req_item_id req)")
    case None
    with Cons.prems(1) have
      "resolve_loop st cur rnd rest k items
         (errors @ [''Product not found: '' @ req_item_id req]) = (items', errors', k')"
      by simp
    from Cons.IH [OF this Cons.prems(2)] show ?thesis .
  next
    case (Some p)
    show ?thesis
    proof (cases "p_in_stock p \<and> p_currency p = cur")
      case True
      let ?it = "\<lparr>li_id = rnd k,
                    li_item = \<lparr>item_id = p_id p, item_name = p_name p,
                               item_description = p_description p,
                               item_image_url = p_image_url p\<rparr>,
                    quantity = req_quantity req, unit_price = p_price p,
                    total_price = js_times (p_price p) (req_quantity req)\<rparr>"
      from Cons.prems(1) Some True have
        r: "resolve_loop st cur rnd rest (Suc k) (items @ [?it]) errors = (items', errors', k')"
        by simp
      from Cons.prems(2) have
        "\<forall>it \<in> set (items @ [?it]). total_price it = js_times (unit_price it) (quantity it)"
        by simp
      from Cons.IH [OF r this] show ?thesis .
    next
      case False
      with Cons.prems(1) Some obtain e where
        "resolve_loop st cur rnd rest k items (errors @ [e]) = (items', errors', k')"
        by (auto split: if_splits)
      from Cons.IH [OF this Cons.prems(2)] show ?thesis .
    qed
  qed
qed

lemma resolve_mixed:
  "resolveLineItems initial_server demo_uuid
     [\<lparr>req_item_id = ''rose-bouquet'', req_quantity = 2\<rparr>,
      \<lparr>req_item_id = ''peony'', req_quantity = 1\<rparr>,
      \<lparr>req_item_id = ''mixed-wildflowers'', req_quantity = 1\<rparr>,
      \<lparr>req_item_id = ''tulip-arrangement'', req_quantity = 3\<rparr>] ''USD''
   = ([rose_item 2 ''c0ffee00-'', tulip_item 3 ''c0ffee00-a''],
      [''Product not found: peony'', ''Product out of stock: Mixed Wildflower Bouquet''], 2)"
  by (simp add: resolveLineItems_def getProduct_rose getProduct_tulip getProduct_unknown
      getProduct_wildflowers rose_item_def tulip_item_def demo_uuid_def)

text \<open>
  C3, as stated, fails: it says that the total price of every emitted line item equals
  unit price \<times> quantity. The code multiplies doubles. For 1801800210991 rose bouquets
  at 4999 the product is 9007199254744009, which is not a double, and the line item
  carries the total price 9007199254744008.
\<close>

theorem resolveLineItems_total_price_rounded:
  "resolveLineItems initial_server demo_uuid
     [\<lparr>req_item_id = ''rose-bouquet'', req_quantity = 1801800210991\<rparr>] ''USD''
   = ([\<lparr>li_id = ''c0ffee00-'',
        li_item = \<lparr>item_id = ''rose-bouquet'', item_name = ''Classic Rose Bouquet'',
                   item_description = ''A dozen fresh red roses, beautifully arranged'',
                   item_image_url = Some ''https://example.com/images/rose-bouquet.jpg''\<rparr>,
        quantity = 1801800210991, unit_price = 4999,
        total_price = 9007199254744008\<rparr>], [], 1)
   \<and> (4999::int) * 1801800210991 = 9007199254744009"
  by (simp add: resolveLineItems_def getProduct_rose demo_uuid_def js_times_large)

text \<open>
  C3, amended. For every request list and currency, \<^verbatim>\<open>resolveLineItems\<close> handles each
  request on its own. The errors it returns are, in the order of the requests, the error
  of each request that has one: "Product not found: id" for an unknown product id,
  "Product out of stock: name" for a product that is not in stock, "Currency mismatch for
  name: expected c, got c'" for a product in another currency. The items it returns are,
  in the order of the requests, one line item for each of the other requests, with the
  product's snapshot, the requested quantity and the catalog price as unit price; their
  ids are the generated ones. The total price of an item equals unit price \<times> quantity
  whenever that product is at most \<open>2 ^ 53\<close> in magnitude; beyond (and below
  \<open>2 ^ 1023\<close>) it is the double nearest to that product. The function is total: it
  returns both lists for every input and has no failing branch.
\<close>

theorem resolveLineItems_contract:
  assumes "resolveLineItems st rnd reqs cur = (items, errors, k)"
  shows "errors = List.map_filter (request_error st cur) reqs \<and>
         map item_content items = List.map_filter (request_item st cur) reqs \<and>
         map li_id items = map rnd [0..<length items] \<and>
         (\<forall>it \<in> set items.
            (\<bar>unit_price it * quantity it\<bar> \<le> 2 ^ 53 \<longrightarrow>
               total_price it = unit_price it * quantity it) \<and>
            (\<bar>unit_price it * quantity it\<bar> < 2 ^ 1023 \<longrightarrow>
               total_price it = double_round (unit_price it * quantity it)))"
proof -
  from assms have l: "resolve_loop st cur rnd reqs 0 [] [] = (items, errors, k)"
    by (simp add: resolveLineItems_def)
  from resolve_loop_spec [OF l] have r:
    "errors = List.map_filter (request_error st cur) reqs"
    "map item_content items = List.map_filter (request_item st cur) reqs"
    "k = length (List.map_filter (request_item st cur) reqs)"
    "map li_id items = map rnd [0..<k]"
    by simp_all
  from r(2) have "length items = length (List.map_filter (request_item st cur) reqs)"
    by (metis length_map)
  with r(3) have k: "k = length items" by simp
  from resolve_loop_total_price [OF l] have
    t: "\<forall>it \<in> set items. total_price it = js_times (unit_price it) (quantity it)"
    by simp
  have "(\<bar>unit_price it * quantity it\<bar> \<le> 2 ^ 53 \<longrightarrow>
           total_price it = unit_price it * quantity it) \<and>
        (\<bar>unit_price it * quantity it\<bar> < 2 ^ 1023 \<longrightarrow>
           total_price it = double_round (unit_price it * quantity it))"
    if "it \<in> set items" for it
    using t that by (simp add: js_times_exact) (simp add: js_times_def)
  with r k show ?thesis by simp
qed

theorem resolveLineItems_contract_witness:
  "resolveLineItems initial_server demo_uuid
     [\<lparr>req_item_id = ''rose-bouquet'', req_quantity = 2\<rparr>,
      \<lparr>req_item_id = ''peony'', req_quantity = 1\<rparr>,
      \<lparr>req_item_id = ''mixed-wildflowers'', req_quantity = 1\<rparr>,
      \<lparr>req_item_id = ''tulip-arrangement'', req_quantity = 3\<rparr>] ''USD''
   = ([rose_item 2 ''c0ffee00-'', tulip_item 3 ''c0ffee00-a''],
      [''Product not found: peony'', ''Product out of stock: Mixed Wildflower Bouquet''], 2)
   \<and> List.map_filter (request_error initial_server ''USD'')
         [\<lparr>req_item_id = ''rose-bouquet'', req_quantity = 2\<rparr>,
          \<lparr>req_item_id = ''peony'', req_quantity = 1\<rparr>,
          \<lparr>req_item_id = ''mixed-wildflowers'', req_quantity = 1\<rparr>,
          \<lparr>req_item_id = ''tulip-arrangement'', req_quantity = 3\<rparr>]
       = [''Product not found: peony'', ''Product out of stock: Mixed Wildflower Bouquet'']
   \<and> List.map_filter (request_item initial_server ''USD'')
         [\<lparr>req_item_id = ''rose-bouquet'', req_quantity = 2\<rparr>,
          \<lparr>req_item_id = ''peony'', req_quantity = 1\<rparr>,
          \<lparr>req_item_id = ''mixed-wildflowers'', req_quantity = 1\<rparr>,
          \<lparr>req_item_id = ''tulip-arrangement'', req_quantity = 3\<rparr>]
       = map item_content [rose_item 2 ''c0ffee00-'', tulip_item 3 ''c0ffee00-a'']
   \<and> map li_id [rose_item 2 ''c0ffee00-'', tulip_item 3 ''c0ffee00-a'']
       = [demo_uuid 0, demo_uuid 1]
   \<and> \<bar>unit_price (rose_item 2 ''c0ffee00-'') * quantity (rose_item 2 ''c0ffee00-'')\<bar>
       \<le> 2 ^ 53
   \<and> total_price (rose_item 2 ''c0ffee00-'') = 4999 * 2
   \<and> total_price (tulip_item 3 ''c0ffee00-a'') = 3499 * 3"
proof -
  have u: "map demo_uuid [0..<2] = [demo_uuid 0, demo_uuid 1]"
    by (simp add: upt_conv_Cons)
  have b: "\<bar>unit_price (rose_item 2 ''c0ffee00-'') * quantity (rose_item 2 ''c0ffee00-'')\<bar>
             \<le> 2 ^ 53"
    "\<bar>unit_price (tulip_item 3 ''c0ffee00-a'') * quantity (tulip_item 3 ''c0ffee00-a'')\<bar>
             \<le> 2 ^ 53"
    "unit_price (rose_item 2 ''c0ffee00-'') * quantity (rose_item 2 ''c0ffee00-'') = 4999 * 2"
    "unit_price (tulip_item 3 ''c0ffee00-a'') * quantity (tulip_item 3 ''c0ffee00-a'') = 3499 * 3"
    by (simp_all add: rose_item_def tulip_item_def)
  from resolveLineItems_contract [OF resolve_mixed] have c:
    "[''Product not found: peony'', ''Product out of stock: Mixed Wildflower Bouquet''] =
       List.map_filter (request_error initial_server ''USD'')
         [\<lparr>req_item_id = ''rose-bouquet'', req_quantity = 2\<rparr>,
          \<lparr>req_item_id = ''peony'', req_quantity = 1\<rparr>,
          \<lparr>req_item_id = ''mixed-wildflowers'', req_quantity = 1\<rparr>,
          \<lparr>req_item_id = ''tulip-arrangement'', req_quantity = 3\<rparr>]"
    "map item_content [rose_item 2 ''c0ffee00-'', tulip_item 3 ''c0ffee00-a''] =
       List.map_filter (request_item initial_server ''USD'')
         [\<lparr>req_item_id = ''rose-bouquet'', req_quantity = 2\<rparr>,
          \<lparr>req_item_id = ''peony'', req_quantity = 1\<rparr>,
          \<lparr>req_item_id = ''mixed-wildflowers'', req_quantity = 1\<rparr>,
          \<lparr>req_item_id = ''tulip-arrangement'', req_quantity = 3\<rparr>]"
    "map li_id [rose_item 2 ''c0ffee00-'', tulip_item 3 ''c0ffee00-a'']
       = map demo_uuid [0..<length [rose_item 2 ''c0ffee00-'', tulip_item 3 ''c0ffee00-a'']]"
    "\<bar>unit_price (rose_item 2 ''c0ffee00-'') * quantity (rose_item 2 ''c0ffee00-'')\<bar>
       \<le> 2 ^ 53 \<longrightarrow>
     total_price (rose_item 2 ''c0ffee00-'') =
       unit_price (rose_item 2 ''c0ffee00-'') * quantity (rose_item 2 ''c0ffee00-'')"
    "\<bar>unit_price (tulip_item 3 ''c0ffee00-a'') * quantity (tulip_item 3 ''c0ffee00-a'')\<bar>
       \<le> 2 ^ 53 \<longrightarrow>
     total_price (tulip_item 3 ''c0ffee00-a'') =
       unit_price (tulip_item 3 ''c0ffee00-a'') * quantity (tulip_item 3 ''c0ffee00-a'')"
    by simp_all
  from c(4) b(1) b(3) have r: "total_price (rose_item 2 ''c0ffee00-'') = 4999 * 2"
    by (simp only:)
  from c(5) b(2) b(4) have t: "total_price (tulip_item 3 ''c0ffee00-a'') = 3499 * 3"
    by (simp only:)
  from c(3) u have i: "map li_id [rose_item 2 ''c0ffee00-'', tulip_item 3 ''c0ffee00-a'']
       = [demo_uuid 0, demo_uuid 1]"
    by simp
  from resolve_mixed c(1) c(2) i b(1) r t show ?thesis by (simp only: simp_thms)
qed

section \<open>Totals\<close>

lemma resolve_nine_roses_eleven_tulips:
  "resolveLineItems initial_server demo_uuid
     [\<lparr>req_item_id = ''rose-bouquet'', req_quantity = 9\<rparr>,
      \<lparr>req_item_id = ''tulip-arrangement'', req_quantity = 11\<rparr>] ''USD''
   = ([rose_item 9 ''c0ffee00-'', tulip_item 11 ''c0ffee00-a''], [], 2)"
  by (simp add: resolveLineItems_def getProduct_rose getProduct_tulip rose_item_def
      tulip_item_def demo_uuid_def)

text \<open>
  The double product is within \<open>2 ^ 30 / 2 ^ 55\<close> of the exact one for subtotals up to
  \<open>2 ^ 32\<close>, and the exact one is \<open>7 s / 80 - s / (5 * 2 ^ 55)\<close>. So the tax is the
  half-up rounding of 8.75% of the subtotal whenever that is not an exact tie, which
  happens when the subtotal is 40 modulo 80; at a tie the tax is the half-up rounding or
  one less.
\<close>

lemma round_to_53_bits_error:
  assumes "m < 2 ^ 84"
  shows "\<bar>int (round_to_53_bits m) - int m\<bar> \<le> 2 ^ 30"
proof (cases "bit_length m \<le> 53")
  case True
  then show ?thesis by (simp add: round_to_53_bits_def)
next
  case False
  define sh where "sh = bit_length m - 53"
  from bit_length_le [OF assms] False have sh: "1 \<le> sh" "sh \<le> 31"
    by (simp_all add: sh_def)
  define q where "q = m div 2 ^ sh"
  define r where "r = m mod 2 ^ sh"
  define h :: nat where "h = 2 ^ (sh - 1)"
  have m: "m = q * 2 ^ sh + r" unfolding q_def r_def by (rule div_mult_mod_eq [symmetric])
  have hh: "2 ^ sh = 2 * h" using sh(1) by (simp add: h_def flip: power_Suc)
  have r: "r < 2 * h" unfolding hh [symmetric] by (simp add: r_def)
  have "sh - 1 \<le> 30" using sh by simp
  then have "(2::nat) ^ (sh - 1) \<le> 2 ^ 30" by (rule power_increasing) simp
  then have "int (2 ^ (sh - 1)) \<le> int (2 ^ 30)" by (simp only: of_nat_le_iff)
  then have h30: "int h \<le> 2 ^ 30" by (simp add: h_def)
  have v: "round_to_53_bits m = (if h < r \<or> (r = h \<and> odd q) then (q + 1) * 2 ^ sh else q * 2 ^ sh)"
    using False by (simp add: round_to_53_bits_def Let_def sh_def q_def r_def h_def)
  show ?thesis
  proof (cases "h < r \<or> (r = h \<and> odd q)")
    case True
    have "round_to_53_bits m = (q + 1) * 2 ^ sh" by (simp only: v if_P [OF True])
    then have "round_to_53_bits m = (q + 1) * (2 * h)" by (simp only: hh)
    moreover have "m = q * (2 * h) + r" using m hh by simp
    moreover from True have "h \<le> r" by auto
    ultimately have "int (round_to_53_bits m) - int m = 2 * int h - int r" "int h \<le> int r" "int r < 2 * int h"
      using r by (simp_all add: algebra_simps)
    with h30 show ?thesis by simp
  next
    case False
    have "round_to_53_bits m = q * 2 ^ sh" by (simp only: v if_not_P [OF False])
    then have "round_to_53_bits m = q * (2 * h)" by (simp only: hh)
    moreover have "m = q * (2 * h) + r" using m hh by simp
    moreover from False have "r \<le> h" by auto
    ultimately have "int (round_to_53_bits m) - int m = - int r" "int r \<le> int h"
      by (simp_all add: algebra_simps)
    with h30 show ?thesis by simp
  qed
qed

lemma double_round_error:
  assumes "\<bar>p\<bar> < 2 ^ 84"
  shows "\<bar>double_round p - p\<bar> \<le> 2 ^ 30"
proof -
  from assms have "nat \<bar>p\<bar> < 2 ^ 84" by (simp add: nat_less_iff)
  from round_to_53_bits_error [OF this]
  have e: "\<bar>int (round_to_53_bits (nat \<bar>p\<bar>)) - \<bar>p\<bar>\<bar> \<le> 2 ^ 30" by simp
  show ?thesis
  proof (cases "p < 0")
    case True
    then have "double_round p - p = - (int (round_to_53_bits (nat \<bar>p\<bar>)) - \<bar>p\<bar>)"
      by (simp add: double_round_def)
    with e show ?thesis by linarith
  next
    case False
    show ?thesis
    proof (cases "p = 0")
      case True
      then show ?thesis by (simp add: double_round_def)
    next
      case False
      with \<open>\<not> p < 0\<close> have "double_round p - p = int (round_to_53_bits (nat \<bar>p\<bar>)) - \<bar>p\<bar>"
        by (simp add: double_round_def)
      with e show ?thesis by linarith
    qed
  qed
qed

lemma tax_half_up_alt: "tax_half_up s = (7 * s + 40) div 80"
proof -
  have "2 * (s * 875) + 10000 = 250 * (7 * s + 40)" by simp
  moreover have "(20000::int) = 250 * 80" by simp
  ultimately have "tax_half_up s = (250 * (7 * s + 40)) div (250 * 80)"
    by (simp only: tax_half_up_def)
  then show ?thesis by simp
qed

lemma int_div_between:
  fixes a b n :: int
  assumes "0 < b" and "n * b \<le> a" and "a < (n + 1) * b"
  shows "a div b = n"
proof -
  have "a = b * n + (a - n * b)" by (simp add: algebra_simps)
  moreover from assms have "0 \<le> a - n * b" "a - n * b < b" by (simp_all add: algebra_simps)
  ultimately show ?thesis by (metis int_div_pos_eq)
qed

lemma times_TAX_RATE_error:
  assumes "\<bar>s\<bar> \<le> 2 ^ 32"
  shows "\<bar>80 * times_TAX_RATE s - (7 * s * 2 ^ 55 - 16 * s)\<bar> \<le> 80 * 2 ^ 30"
proof -
  have "\<bar>s * TAX_RATE\<bar> = \<bar>s\<bar> * 3152519739159347" by (simp add: TAX_RATE_def abs_mult)
  also have "\<dots> \<le> 2 ^ 32 * 3152519739159347" using assms by simp
  also have "\<dots> < 2 ^ 84" by simp
  finally have "\<bar>s * TAX_RATE\<bar> < 2 ^ 84" .
  from double_round_error [OF this]
  have "\<bar>times_TAX_RATE s - s * TAX_RATE\<bar> \<le> 2 ^ 30" by (simp add: times_TAX_RATE_def)
  moreover have "80 * (s * TAX_RATE) = 7 * s * 2 ^ 55 - 16 * s" by (simp add: TAX_RATE_def)
  ultimately show ?thesis by linarith
qed

lemma tax_half_up_except_ties:
  assumes "\<bar>s\<bar> \<le> 2 ^ 32" and "s mod 80 \<noteq> 40"
  shows "Math_round (times_TAX_RATE s) = tax_half_up s"
proof -
  define n where "n = (7 * s + 40) div 80"
  define r where "r = (7 * s + 40) mod 80"
  define v where "v = times_TAX_RATE s"
  have d: "7 * s + 40 = 80 * n + r" by (simp add: n_def r_def)
  have r: "0 \<le> r" "r < 80" by (simp_all add: r_def)
  have "r \<noteq> 0"
  proof
    assume "r = 0"
    with d have "s = 40 + 80 * (23 * n - 2 * s - 12)" by simp
    then have "s mod 80 = (40 + 80 * (23 * n - 2 * s - 12)) mod 80"
      by (rule arg_cong [where f = "\<lambda>x. x mod 80"])
    also have "\<dots> = 40" by (simp only: mod_mult_self2) simp
    finally show False using assms(2) by simp
  qed
  with r have r1: "1 \<le> r" "r \<le> 79" by simp_all
  from times_TAX_RATE_error [OF assms(1)]
  have e: "\<bar>80 * v - (7 * s * 2 ^ 55 - 16 * s)\<bar> \<le> 80 * 2 ^ 30" by (simp add: v_def)
  have s: "16 * \<bar>s\<bar> \<le> 16 * 2 ^ 32" using assms(1) by simp
  have k: "7 * s * 2 ^ 55 = (80 * n + r - 40) * 2 ^ 55" using d by simp
  have lo: "n * 2 ^ 56 \<le> 2 * v + 2 ^ 55"
  proof -
    have "80 * n * 2 ^ 55 + 2 ^ 55 \<le> (80 * n + r) * 2 ^ 55"
      using r1(1) by (simp add: algebra_simps)
    with e s k show ?thesis by (simp add: algebra_simps; linarith)
  qed
  have hi: "2 * v + 2 ^ 55 < (n + 1) * 2 ^ 56"
  proof -
    have "(80 * n + r) * 2 ^ 55 \<le> 80 * n * 2 ^ 55 + 79 * 2 ^ 55"
      using r1(2) by (simp add: algebra_simps)
    with e s k show ?thesis by (simp add: algebra_simps; linarith)
  qed
  have "(2 * v + 2 ^ 55) div 2 ^ 56 = n"
    by (rule int_div_between [OF _ lo hi]) simp
  then show ?thesis by (simp add: Math_round_def v_def tax_half_up_alt n_def)
qed

lemma tax_at_ties:
  assumes "\<bar>s\<bar> \<le> 2 ^ 32" and "s mod 80 = 40"
  shows "Math_round (times_TAX_RATE s) = tax_half_up s \<or>
         Math_round (times_TAX_RATE s) = tax_half_up s - 1"
proof -
  define n where "n = (7 * s + 40) div 80"
  define v where "v = times_TAX_RATE s"
  from assms(2) have "s = 80 * (s div 80) + 40" by (metis mult_div_mod_eq)
  then have "7 * s + 40 = 80 * (7 * (s div 80) + 4)" by simp
  then have "(7 * s + 40) mod 80 = 0" by (metis mod_mult_self1_is_0)
  then have d: "7 * s + 40 = 80 * n" by (simp add: n_def mod_eq_0_iff_dvd)
  from times_TAX_RATE_error [OF assms(1)]
  have e: "\<bar>80 * v - (7 * s * 2 ^ 55 - 16 * s)\<bar> \<le> 80 * 2 ^ 30" by (simp add: v_def)
  have s: "16 * \<bar>s\<bar> \<le> 16 * 2 ^ 32" using assms(1) by simp
  have k: "7 * s * 2 ^ 55 = (80 * n - 40) * 2 ^ 55" using d by simp
  have lo: "(n - 1) * 2 ^ 56 \<le> 2 * v + 2 ^ 55"
    using e s k by (simp add: algebra_simps; linarith)
  have hi: "2 * v + 2 ^ 55 < (n + 1) * 2 ^ 56"
    using e s k by (simp add: algebra_simps; linarith)
  show ?thesis
  proof (cases "n * 2 ^ 56 \<le> 2 * v + 2 ^ 55")
    case True
    have "(2 * v + 2 ^ 55) div 2 ^ 56 = n"
      by (rule int_div_between [OF _ True hi]) simp
    then show ?thesis by (simp add: Math_round_def v_def tax_half_up_alt n_def)
  next
    case False
    then have "2 * v + 2 ^ 55 < (n - 1 + 1) * 2 ^ 56" by simp
    with lo have "(2 * v + 2 ^ 55) div 2 ^ 56 = n - 1"
      by (intro int_div_between) simp_all
    then show ?thesis by (simp add: Math_round_def v_def tax_half_up_alt n_def)
  qed
qed

text \<open>
  What holds of \<^verbatim>\<open>calculateTotals\<close>. For every list the tax is \<^verbatim>\<open>Math.round\<close> of the
  double product of subtotal and rate, the shipping fee is 0 from the subtotal 5000 on and
  599 below, and the discount is 0. When the total prices add up to at most \<open>2 ^ 32\<close> in
  absolute value, the sums are exact: the subtotal is the sum of the total prices and the
  total is subtotal + tax + shipping - discount. The empty list gives 0, 0, 599, 0, 599.
\<close>

lemma foldl_js_plus:
  "\<bar>a\<bar> + sum_list (map (\<lambda>it. \<bar>total_price it\<bar>) xs) \<le> 2 ^ 53 \<Longrightarrow>
   foldl (\<lambda>sum item. js_plus sum (total_price item)) a xs = a + sum_list (map total_price xs)"
proof (induction xs arbitrary: a)
  case Nil
  then show ?case by simp
next
  case (Cons x xs)
  have nn: "0 \<le> sum_list (map (\<lambda>it. \<bar>total_price it\<bar>) xs)"
    by (rule sum_list_nonneg) auto
  from Cons.prems nn have "\<bar>a + total_price x\<bar> \<le> 2 ^ 53" by simp
  then have j: "js_plus a (total_price x) = a + total_price x" by (rule js_plus_exact)
  from Cons.prems have
    "\<bar>a + total_price x\<bar> + sum_list (map (\<lambda>it. \<bar>total_price it\<bar>) xs) \<le> 2 ^ 53"
    by simp
  from Cons.IH [OF this] j show ?case by simp
qed

lemma abs_sum_list_le:
  "\<bar>sum_list (map total_price xs)\<bar> \<le> sum_list (map (\<lambda>it. \<bar>total_price it\<bar>) xs)"
  by (induction xs) auto

lemma tax_bounded:
  assumes "\<bar>s\<bar> \<le> 2 ^ 32"
  shows "\<bar>Math_round (times_TAX_RATE s)\<bar> \<le> 2 ^ 32"
proof -
  have h: "\<bar>tax_half_up s\<bar> \<le> 2 ^ 31" "\<bar>tax_half_up s - 1\<bar> \<le> 2 ^ 31"
    using assms by (simp_all add: tax_half_up_alt)
  show ?thesis
  proof (cases "s mod 80 = 40")
    case True
    from tax_at_ties [OF assms True] h show ?thesis by auto
  next
    case False
    from tax_half_up_except_ties [OF assms False] h show ?thesis by simp
  qed
qed

lemma calculateTotals_fields:
  "tax (calculateTotals xs) = Math_round (times_TAX_RATE (subtotal (calculateTotals xs))) \<and>
   shipping (calculateTotals xs) = (if subtotal (calculateTotals xs) \<ge> 5000 then 0 else 599) \<and>
   discount (calculateTotals xs) = 0"
  by (simp add: calculateTotals_def Let_def)

lemma calculateTotals_formula:
  assumes "sum_list (map (\<lambda>it. \<bar>total_price it\<bar>) xs) \<le> 2 ^ 32"
  shows "subtotal (calculateTotals xs) = sum_list (map total_price xs) \<and>
         total_amount (calculateTotals xs) =
           subtotal (calculateTotals xs) + tax (calculateTotals xs)
           + shipping (calculateTotals xs) - discount (calculateTotals xs)"
proof -
  define s where "s = sum_list (map total_price xs)"
  define t where "t = Math_round (times_TAX_RATE s)"
  define h :: int where "h = (if s \<ge> 5000 then 0 else 599)"
  from assms have "\<bar>0::int\<bar> + sum_list (map (\<lambda>it. \<bar>total_price it\<bar>) xs) \<le> 2 ^ 53" by simp
  from foldl_js_plus [OF this]
  have f: "foldl (\<lambda>sum item. js_plus sum (total_price item)) 0 xs = s"
    by (simp add: s_def)
  from assms abs_sum_list_le [of xs] have s: "\<bar>s\<bar> \<le> 2 ^ 32" by (simp add: s_def)
  from tax_bounded [OF s] have t: "\<bar>t\<bar> \<le> 2 ^ 32" by (simp add: t_def)
  have h: "0 \<le> h" "h \<le> 599" by (simp_all add: h_def)
  from s t have "\<bar>s + t\<bar> \<le> 2 ^ 53" by simp
  then have 1: "js_plus s t = s + t" by (rule js_plus_exact)
  from s t h have "\<bar>s + t + h\<bar> \<le> 2 ^ 53" by simp
  then have 2: "js_plus (s + t) h = s + t + h" by (rule js_plus_exact)
  from s t h have "\<bar>s + t + h - 0\<bar> \<le> 2 ^ 53" by simp
  then have 3: "js_minus (s + t + h) 0 = s + t + h - 0" by (rule js_minus_exact)
  have "calculateTotals xs =
          \<lparr>subtotal = s, tax = t, shipping = h, discount = 0, total_amount = s + t + h - 0\<rparr>"
    by (simp add: calculateTotals_def Let_def f t_def [symmetric] h_def [symmetric] 1 2 3)
  then show ?thesis by (simp add: s_def)
qed

lemma calculateTotals_empty:
  "calculateTotals [] = \<lparr>subtotal = 0, tax = 0, shipping = 599, discount = 0, total_amount = 599\<rparr>"
  by (simp add: calculateTotals_def tax_0 js_exact)

lemma calculateTotals_except_ties:
  assumes "sum_list (map (\<lambda>it. \<bar>total_price it\<bar>) xs) \<le> 2 ^ 32"
    and "sum_list (map total_price xs) mod 80 \<noteq> 40"
  shows "calculateTotals xs = spec_totals xs"
proof -
  from assms(1) abs_sum_list_le [of xs] have s: "\<bar>sum_list (map total_price xs)\<bar> \<le> 2 ^ 32"
    by simp
  from calculateTotals_formula [OF assms(1)] calculateTotals_fields [of xs]
    tax_half_up_except_ties [OF s assms(2)]
  have "calculateTotals xs =
          \<lparr>subtotal = sum_list (map total_price xs),
           tax = tax_half_up (sum_list (map total_price xs)),
           shipping = (if sum_list (map total_price xs) \<ge> 5000 then 0 else 599),
           discount = 0,
           total_amount = sum_list (map total_price xs)
             + tax_half_up (sum_list (map total_price xs))
             + (if sum_list (map total_price xs) \<ge> 5000 then 0 else 599) - 0\<rparr>"
    by (cases "calculateTotals xs") simp
  then show ?thesis by (simp add: spec_totals_def Let_def)
qed

text \<open>
  C4. The claim is that for every list of line items the tax is subtotal \<times> 8.75% rounded
  half-up to the nearest integer. The code computes \<^verbatim>\<open>Math.round(subtotal * 0.0875)\<close> in
  double arithmetic, and \<^verbatim>\<open>0.0875\<close> is a little less than 7/80. Nine rose bouquets
  and eleven tulip arrangements cost 83480; 8.75% of it is 7304.5, which half-up rounding
  takes to 7305. The double product is 7304.499999999999, and the code returns the tax 7304
  and the total 90784 where the claim says 7305 and 90785.
\<close>

theorem calculateTotals_tax_not_half_up:
  "resolveLineItems initial_server demo_uuid
     [\<lparr>req_item_id = ''rose-bouquet'', req_quantity = 9\<rparr>,
      \<lparr>req_item_id = ''tulip-arrangement'', req_quantity = 11\<rparr>] ''USD''
   = ([rose_item 9 ''c0ffee00-'', tulip_item 11 ''c0ffee00-a''], [], 2)
   \<and> calculateTotals [rose_item 9 ''c0ffee00-'', tulip_item 11 ''c0ffee00-a'']
       = \<lparr>subtotal = 83480, tax = 7304, shipping = 0, discount = 0, total_amount = 90784\<rparr>
   \<and> spec_totals [rose_item 9 ''c0ffee00-'', tulip_item 11 ''c0ffee00-a'']
       = \<lparr>subtotal = 83480, tax = 7305, shipping = 0, discount = 0, total_amount = 90785\<rparr>"
  by (simp add: resolve_nine_roses_eleven_tulips calculateTotals_def spec_totals_def
      tax_half_up_def rose_item_def tulip_item_def js_exact tax_83480)

section \<open>Get and the terminal states\<close>

lemma get_checkout_expired:
  assumes "getCheckout st i = Some c" and "expires_at c < now"
  shows "get_checkout st now i =
           ((200, CheckoutBody
                    (c\<lparr>status := canceled,
                       messages := Some ((case messages c of None \<Rightarrow> [] | Some ms \<Rightarrow> ms)
                                         @ [expired_message])\<rparr>)),
            saveCheckout
              (c\<lparr>status := canceled,
                 messages := Some ((case messages c of None \<Rightarrow> [] | Some ms \<Rightarrow> ms)
                                   @ [expired_message])\<rparr>) st)"
  using assms by (simp add: get_checkout_def Let_def messages_or_empty_def)

lemma get_checkout_live:
  assumes "getCheckout st i = Some c" and "\<not> expires_at c < now"
  shows "get_checkout st now i = ((200, CheckoutBody c), st)"
  using assms by (simp add: get_checkout_def)

text \<open>
  Update, Complete and Cancel leave the store as it is when the session is \<^verbatim>\<open>completed\<close>
  or \<^verbatim>\<open>canceled\<close>: each of them tests the status before it assigns anything.
\<close>

lemma terminal_frozen:
  assumes "getCheckout st i = Some c" and "status c = completed \<or> status c = canceled"
  shows "snd (update_checkout st now rnd i ubody) = st"
    and "snd (complete_checkout st now rnd i pbody) = st"
    and "snd (cancel_checkout st i) = st"
  using assms
  by (auto simp: update_checkout_def complete_checkout_def cancel_checkout_def)

text \<open>
  C1. The claim is that no operation changes a stored session whose status is
  \<^verbatim>\<open>completed\<close> or \<^verbatim>\<open>canceled\<close>. The handler of Get tests the expiry only, not
  the status. From the empty store: Create at time 0 makes the sample session, which
  expires at 21600000; Complete at time 1000 takes it to \<^verbatim>\<open>completed\<close>; Get at time
  21600001 then sets its status to \<^verbatim>\<open>canceled\<close>, adds the \<^verbatim>\<open>EXPIRED\<close> message and
  stores the result.
\<close>

theorem get_checkout_cancels_completed:
  "create_checkout initial_server 0 demo_uuid demo_create
     = ((201, CheckoutBody demo_session), demo_server)
   \<and> complete_checkout demo_server 1000 demo_uuid ''c0ffee00-a'' demo_payment_data
     = ((200, CheckoutBody demo_completed), demo_completed_server)
   \<and> status demo_completed = completed
   \<and> get_checkout demo_completed_server 21600001 ''c0ffee00-a''
     = ((200, CheckoutBody (demo_completed\<lparr>status := canceled,
                                             messages := Some [expired_message]\<rparr>)),
        saveCheckout (demo_completed\<lparr>status := canceled,
                                       messages := Some [expired_message]\<rparr>)
          demo_completed_server)
   \<and> getCheckout
        (snd (get_checkout demo_completed_server 21600001 ''c0ffee00-a'')) ''c0ffee00-a''
     = Some (demo_completed\<lparr>status := canceled, messages := Some [expired_message]\<rparr>)"
proof -
  have e: "expires_at demo_completed < 21600001" "messages demo_completed = None"
    "co_id demo_completed = ''c0ffee00-a''" "status demo_completed = completed"
    by (simp_all add: demo_completed_def demo_session_def)
  from get_checkout_expired [OF getCheckout_demo_completed e(1)] e create_demo complete_demo
  show ?thesis by (simp add: getCheckout_saveCheckout)
qed

text \<open>
  C2. The first half of the claim holds (\<open>get_checkout_expired\<close>): a Get past the expiry
  sets the status to \<^verbatim>\<open>canceled\<close>, appends the \<^verbatim>\<open>EXPIRED\<close> message and stores the
  session before returning it. The second half is that a later Get returns the same
  canceled state without a second \<^verbatim>\<open>EXPIRED\<close> message. The handler does not look at the
  status, and the expiry is still in the past: Get at time 21600001 on the sample session
  leaves one \<^verbatim>\<open>EXPIRED\<close> message, Get at time 21600002 leaves two.
\<close>

theorem get_checkout_repeats_expired_message:
  "create_checkout initial_server 0 demo_uuid demo_create
     = ((201, CheckoutBody demo_session), demo_server)
   \<and> get_checkout demo_server 21600001 ''c0ffee00-a''
     = ((200, CheckoutBody demo_expired), saveCheckout demo_expired demo_server)
   \<and> status demo_expired = canceled
   \<and> messages demo_expired = Some [expired_message]
   \<and> get_checkout (saveCheckout demo_expired demo_server) 21600002 ''c0ffee00-a''
     = ((200, CheckoutBody (demo_expired\<lparr>messages := Some [expired_message, expired_message]\<rparr>)),
        saveCheckout (demo_expired\<lparr>messages := Some [expired_message, expired_message]\<rparr>)
          (saveCheckout demo_expired demo_server))"
proof -
  have e: "expires_at demo_session < 21600001" "messages demo_session = None"
    "co_id demo_session = ''c0ffee00-a''"
    by (simp_all add: demo_session_def)
  have x: "demo_session\<lparr>status := canceled, messages := Some ([] @ [expired_message])\<rparr>
             = demo_expired"
    by (simp add: demo_expired_def)
  have g1: "get_checkout demo_server 21600001 ''c0ffee00-a''
              = ((200, CheckoutBody demo_expired), saveCheckout demo_expired demo_server)"
    using get_checkout_expired [OF getCheckout_demo e(1)] e(2) x by simp
  have f: "expires_at demo_expired < 21600002"
    "co_id demo_expired = ''c0ffee00-a''" "status demo_expired = canceled"
    "messages demo_expired = Some [expired_message]"
    by (simp_all add: demo_expired_def demo_session_def)
  have s: "getCheckout (saveCheckout demo_expired demo_server) ''c0ffee00-a'' = Some demo_expired"
    by (simp add: getCheckout_saveCheckout f)
  have y: "demo_expired\<lparr>status := canceled\<rparr> = demo_expired"
    by (simp add: demo_expired_def)
  from get_checkout_expired [OF s f(1)] f g1 create_demo y show ?thesis by simp
qed

section \<open>Complete\<close>

text \<open>
  C6. For every stored session whose status is \<^verbatim>\<open>completed\<close>, every call of Complete,
  whatever its body, the clock and the random ids, answers 400 with the error "Checkout
  already completed" and returns the state it was given: no order is created and the
  session is unchanged.
\<close>

theorem complete_on_completed_rejected:
  assumes "getCheckout st i = Some c" and "status c = completed"
  shows "complete_checkout st now rnd i body
           = ((400, ErrorBody ''Checkout already completed''), st)"
  using assms by (simp add: complete_checkout_def)

theorem complete_on_completed_rejected_witness:
  "getCheckout demo_completed_server ''c0ffee00-a'' = Some demo_completed
   \<and> status demo_completed = completed
   \<and> complete_checkout demo_completed_server 2000 demo_uuid ''c0ffee00-a'' demo_payment_data
       = ((400, ErrorBody ''Checkout already completed''), demo_completed_server)"
proof -
  have s: "status demo_completed = completed" by (simp add: demo_completed_def)
  from complete_on_completed_rejected [OF getCheckout_demo_completed s]
    getCheckout_demo_completed s show ?thesis by simp
qed

text \<open>
  C5, as stated, fails: it speaks of every Complete with the token \<^verbatim>\<open>fail_token\<close> on a
  session that is \<^verbatim>\<open>ready_for_complete\<close>, and the handler first requires a non-empty
  \<^verbatim>\<open>payment_data.handler_id\<close>. With an empty handler id and the token \<^verbatim>\<open>fail_token\<close>
  the answer is 400 "payment_data.handler_id is required" and nothing is stored: the
  payment status stays \<^verbatim>\<open>pending\<close> and no \<^verbatim>\<open>PAYMENT_FAILED\<close> message is attached.
\<close>

theorem complete_fail_token_needs_handler:
  "getCheckout demo_server ''c0ffee00-a'' = Some demo_session
   \<and> status demo_session = ready_for_complete
   \<and> payment_status (payment demo_session) = pending
   \<and> messages demo_session = None
   \<and> complete_checkout demo_server 1000 demo_uuid ''c0ffee00-a''
         (Some \<lparr>pd_handler_id = Some [], pd_token = Some ''fail_token''\<rparr>)
       = ((400, ErrorBody ''payment_data.handler_id is required''), demo_server)"
  by (simp add: getCheckout_demo complete_checkout_def truthy_def)
     (simp add: demo_session_def)

text \<open>
  C5, amended. For every stored session in status \<^verbatim>\<open>ready_for_complete\<close>, Complete
  with a non-empty \<^verbatim>\<open>payment_data.handler_id\<close> and the token \<^verbatim>\<open>fail_token\<close> first stores
  the session with status \<^verbatim>\<open>complete_in_progress\<close> (the state \<open>st1\<close>), then sets the
  status back to \<^verbatim>\<open>ready_for_complete\<close>, the payment status to \<^verbatim>\<open>failed\<close> and the
  messages to the single \<^verbatim>\<open>PAYMENT_FAILED\<close> message, stores that, and answers 400 with
  the session; the orders are the same before, in between and after.
\<close>

theorem complete_fail_token:
  assumes "store_ok st" and "getCheckout st i = Some c" and "status c = ready_for_complete"
    and "truthy (pd_handler_id pd)" and "pd_token pd = Some ''fail_token''"
  shows "let st1 = snd (complete_begin c st);
             c2 = c\<lparr>status := ready_for_complete,
                    payment := (payment c)\<lparr>payment_status := failed\<rparr>,
                    messages := Some [payment_failed_message]\<rparr>
         in getCheckout st1 i = Some (c\<lparr>status := complete_in_progress\<rparr>)
            \<and> orders st1 = orders st
            \<and> complete_checkout st now rnd i (Some pd)
                = complete_settle now rnd (pd_token pd) (complete_begin c st)
            \<and> complete_settle now rnd (pd_token pd) (complete_begin c st)
                = ((400, CheckoutBody c2), saveCheckout c2 st1)
            \<and> getCheckout (saveCheckout c2 st1) i = Some c2
            \<and> orders (saveCheckout c2 st1) = orders st"
proof -
  from assms(1,2) have i: "co_id c = i" by (rule store_ok_id)
  from assms i show ?thesis
    by (simp add: complete_checkout_def complete_begin_def complete_settle_def Let_def
        getCheckout_saveCheckout orders_saveCheckout)
qed

theorem complete_fail_token_witness:
  "store_ok demo_server \<and> getCheckout demo_server ''c0ffee00-a'' = Some demo_session
   \<and> status demo_session = ready_for_complete
   \<and> truthy (Some ''mock-payment-handler'')
   \<and> complete_checkout demo_server 1000 demo_uuid ''c0ffee00-a''
        (Some \<lparr>pd_handler_id = Some ''mock-payment-handler'', pd_token = Some ''fail_token''\<rparr>)
      = ((400, CheckoutBody (demo_session\<lparr>status := ready_for_complete,
                    payment := (payment demo_session)\<lparr>payment_status := failed\<rparr>,
                    messages := Some [payment_failed_message]\<rparr>)),
         saveCheckout (demo_session\<lparr>status := ready_for_complete,
                    payment := (payment demo_session)\<lparr>payment_status := failed\<rparr>,
                    messages := Some [payment_failed_message]\<rparr>)
           (snd (complete_begin demo_session demo_server)))
   \<and> getCheckout (snd (complete_begin demo_session demo_server)) ''c0ffee00-a''
      = Some (demo_session\<lparr>status := complete_in_progress\<rparr>)"
proof -
  have s: "status demo_session = ready_for_complete" by (simp add: demo_session_def)
  have t: "truthy (pd_handler_id \<lparr>pd_handler_id = Some ''mock-payment-handler'',
                                  pd_token = Some ''fail_token''\<rparr>)"
    by (simp add: truthy_def)
  have k: "pd_token \<lparr>pd_handler_id = Some ''mock-payment-handler'',
                     pd_token = Some ''fail_token''\<rparr> = Some ''fail_token''"
    by simp
  from complete_fail_token [OF store_ok_demo getCheckout_demo s t k, of 1000 demo_uuid]
    store_ok_demo getCheckout_demo s show ?thesis
    by (simp add: Let_def truthy_def)
qed

section \<open>Cancel\<close>

text \<open>
  C7. For every stored session that is neither \<^verbatim>\<open>completed\<close> nor \<^verbatim>\<open>canceled\<close>,
  Cancel sets the status to \<^verbatim>\<open>canceled\<close>, appends the one message \<^verbatim>\<open>CANCELED\<close> of type
  info to the messages the session had (to none when it had no message list), and
  stores the session under its id, leaving the rest of the state as it was; a second
  Cancel on the state so reached answers with the same session and leaves that state as it
  is, so no second message is appended. Cancel on a \<^verbatim>\<open>completed\<close> session answers 400
  "Cannot cancel completed checkout" and changes nothing.
\<close>

theorem cancel_checkout_idempotent:
  assumes "store_ok st" and "getCheckout st i = Some c"
  shows "(status c \<noteq> completed \<and> status c \<noteq> canceled \<longrightarrow>
            (let c' = c\<lparr>status := canceled,
                         messages :=
                           Some ((case messages c of None \<Rightarrow> [] | Some ms \<Rightarrow> ms)
                                 @ [\<lparr>msg_type = Info, code = ''CANCELED'',
                                     message = ''Checkout was canceled''\<rparr>])\<rparr>;
                 st' = st\<lparr>checkoutSessions := (checkoutSessions st)(i \<mapsto> c')\<rparr>
             in cancel_checkout st i = ((200, CheckoutBody c'), st')
                \<and> cancel_checkout st' i = ((200, CheckoutBody c'), st')))
         \<and> (status c = completed \<longrightarrow>
              cancel_checkout st i = ((400, ErrorBody ''Cannot cancel completed checkout''), st))"
proof -
  from assms have i: "co_id c = i" by (rule store_ok_id)
  from assms(2) i show ?thesis
    by (simp add: cancel_checkout_def Let_def getCheckout_def saveCheckout_def
        messages_or_empty_def canceled_message_def)
qed

theorem cancel_checkout_idempotent_witness:
  "store_ok demo_declined_server
   \<and> getCheckout demo_declined_server ''c0ffee00-a'' = Some demo_declined
   \<and> status demo_declined \<noteq> completed \<and> status demo_declined \<noteq> canceled
   \<and> messages demo_declined
       = Some [\<lparr>msg_type = Error, code = ''PAYMENT_FAILED'', message = ''Payment was declined''\<rparr>]
   \<and> cancel_checkout demo_declined_server ''c0ffee00-a''
       = ((200, CheckoutBody
                  (demo_declined
                     \<lparr>status := canceled,
                      messages :=
                        Some [\<lparr>msg_type = Error, code = ''PAYMENT_FAILED'',
                                message = ''Payment was declined''\<rparr>,
                              \<lparr>msg_type = Info, code = ''CANCELED'',
                                message = ''Checkout was canceled''\<rparr>]\<rparr>)),
          demo_declined_server
            \<lparr>checkoutSessions := (checkoutSessions demo_declined_server)
               (''c0ffee00-a'' \<mapsto>
                  demo_declined
                    \<lparr>status := canceled,
                     messages :=
                       Some [\<lparr>msg_type = Error, code = ''PAYMENT_FAILED'',
                               message = ''Payment was declined''\<rparr>,
                             \<lparr>msg_type = Info, code = ''CANCELED'',
                               message = ''Checkout was canceled''\<rparr>]\<rparr>)\<rparr>)
   \<and> cancel_checkout
        (demo_declined_server
            \<lparr>checkoutSessions := (checkoutSessions demo_declined_server)
               (''c0ffee00-a'' \<mapsto>
                  demo_declined
                    \<lparr>status := canceled,
                     messages :=
                       Some [\<lparr>msg_type = Error, code = ''PAYMENT_FAILED'',
                               message = ''Payment was declined''\<rparr>,
                             \<lparr>msg_type = Info, code = ''CANCELED'',
                               message = ''Checkout was canceled''\<rparr>]\<rparr>)\<rparr>)
        ''c0ffee00-a''
       = ((200, CheckoutBody
                  (demo_declined
                     \<lparr>status := canceled,
                      messages :=
                        Some [\<lparr>msg_type = Error, code = ''PAYMENT_FAILED'',
                                message = ''Payment was declined''\<rparr>,
                              \<lparr>msg_type = Info, code = ''CANCELED'',
                                message = ''Checkout was canceled''\<rparr>]\<rparr>)),
          demo_declined_server
            \<lparr>checkoutSessions := (checkoutSessions demo_declined_server)
               (''c0ffee00-a'' \<mapsto>
                  demo_declined
                    \<lparr>status := canceled,
                     messages :=
                       Some [\<lparr>msg_type = Error, code = ''PAYMENT_FAILED'',
                               message = ''Payment was declined''\<rparr>,
                             \<lparr>msg_type = Info, code = ''CANCELED'',
                               message = ''Checkout was canceled''\<rparr>]\<rparr>)\<rparr>)
   \<and> getCheckout demo_completed_server ''c0ffee00-a'' = Some demo_completed
   \<and> status demo_completed = completed
   \<and> cancel_checkout demo_completed_server ''c0ffee00-a''
       = ((400, ErrorBody ''Cannot cancel completed checkout''), demo_completed_server)"
proof -
  have s: "status demo_declined = ready_for_complete"
    "messages demo_declined
       = Some [\<lparr>msg_type = Error, code = ''PAYMENT_FAILED'', message = ''Payment was declined''\<rparr>]"
    by (simp_all add: demo_declined_def demo_session_def payment_failed_message_def)
  have t: "status demo_completed = completed" by (simp add: demo_completed_def)
  from cancel_checkout_idempotent [OF store_ok_demo_declined getCheckout_demo_declined]
    cancel_checkout_idempotent [OF store_ok_demo_completed getCheckout_demo_completed]
    store_ok_demo_declined getCheckout_demo_declined getCheckout_demo_completed s t
  show ?thesis by (simp add: Let_def)
qed

section \<open>Update\<close>

lemma update_checkout_result:
  assumes "getCheckout st i = Some c" and "status c \<noteq> completed" and "status c \<noteq> canceled"
  shows "update_checkout st now rnd i body =
           ((200, CheckoutBody
                    ((update_buyer body (update_payment body (update_line_items st rnd body c)))
                       \<lparr>status := determineStatus
                          (update_buyer body (update_payment body (update_line_items st rnd body c))),
                        expires_at := getExpiresAt st now\<rparr>)),
            saveCheckout
              ((update_buyer body (update_payment body (update_line_items st rnd body c)))
                 \<lparr>status := determineStatus
                    (update_buyer body (update_payment body (update_line_items st rnd body c))),
                  expires_at := getExpiresAt st now\<rparr>) st)"
  using assms by (simp add: update_checkout_def Let_def)

lemma update_line_items_frame:
  "payment (update_line_items st rnd body c) = payment c \<and>
   buyer (update_line_items st rnd body c) = buyer c \<and>
   co_id (update_line_items st rnd body c) = co_id c \<and>
   currency (update_line_items st rnd body c) = currency c"
  by (simp add: update_line_items_def Let_def split: option.splits prod.splits)

lemma update_line_items_omitted:
  "ur_line_items body = None \<Longrightarrow> update_line_items st rnd body c = c"
  by (simp add: update_line_items_def)

lemma update_payment_frame:
  "line_items (update_payment body c) = line_items c \<and>
   totals (update_payment body c) = totals c \<and>
   messages (update_payment body c) = messages c \<and>
   buyer (update_payment body c) = buyer c \<and>
   co_id (update_payment body c) = co_id c \<and>
   currency (update_payment body c) = currency c"
  by (simp add: update_payment_def split: option.splits)

lemma update_buyer_frame:
  "line_items (update_buyer body c) = line_items c \<and>
   totals (update_buyer body c) = totals c \<and>
   messages (update_buyer body c) = messages c \<and>
   payment (update_buyer body c) = payment c \<and>
   co_id (update_buyer body c) = co_id c \<and>
   currency (update_buyer body c) = currency c"
  by (simp add: update_buyer_def split: option.splits)

lemma getExpiresAt_demo: "getExpiresAt demo_server now = now + 21600000"
  by (simp add: demo_server_def getExpiresAt_saveCheckout getExpiresAt_initial)

lemma getExpiresAt_demo_unpaid: "getExpiresAt demo_unpaid_server now = now + 21600000"
  by (simp add: demo_unpaid_server_def getExpiresAt_saveCheckout getExpiresAt_initial)

lemma determineStatus_table:
  "determineStatus c = status_table (line_items c) (selected_instrument_id (payment c))"
  by (cases "selected_instrument_id (payment c)")
     (simp_all add: determineStatus_def status_table_def instrument_selected_def truthy_def)

text \<open>
  C8, as stated, fails: it says that \<^verbatim>\<open>selected_instrument_id\<close> is replaced only if the
  request's payment object supplies it. The handler assigns
  \<^verbatim>\<open>body.payment.selected_instrument_id\<close> whenever a payment object is supplied. An Update
  of the sample session whose payment object carries instruments and no
  \<^verbatim>\<open>selected_instrument_id\<close> clears the selection \<^verbatim>\<open>mock-instrument-1\<close> (and the status
  falls back to \<^verbatim>\<open>incomplete\<close>).
\<close>

theorem update_payment_not_field_level:
  "getCheckout demo_server ''c0ffee00-a'' = Some demo_session
   \<and> status demo_session = ready_for_complete
   \<and> selected_instrument_id (payment demo_session) = Some ''mock-instrument-1''
   \<and> update_checkout demo_server 5 demo_uuid ''c0ffee00-a''
        \<lparr>ur_line_items = None,
         ur_payment = Some \<lparr>req_selected_instrument_id = None,
                            req_instruments = Some [card_instrument]\<rparr>,
         ur_buyer = None\<rparr>
      = ((200, CheckoutBody
                 (demo_session
                    \<lparr>status := incomplete,
                     payment := \<lparr>selected_instrument_id = None,
                                 instruments = [card_instrument],
                                 payment_status = pending\<rparr>,
                     expires_at := 21600005\<rparr>)),
         saveCheckout
           (demo_session
              \<lparr>status := incomplete,
               payment := \<lparr>selected_instrument_id = None,
                           instruments = [card_instrument],
                           payment_status = pending\<rparr>,
               expires_at := 21600005\<rparr>) demo_server)"
proof -
  have s: "status demo_session = ready_for_complete"
    "selected_instrument_id (payment demo_session) = Some ''mock-instrument-1''"
    by (simp_all add: demo_session_def)
  have n: "status demo_session \<noteq> completed" "status demo_session \<noteq> canceled"
    using s by simp_all
  show ?thesis
    unfolding update_checkout_result [OF getCheckout_demo n]
    using getCheckout_demo s
    by (simp add: update_line_items_def update_payment_def update_buyer_def determineStatus_def
        truthy_def getExpiresAt_demo)
       (simp add: demo_session_def)
qed

text \<open>
  C8, amended. For every Update on a stored session that is neither \<^verbatim>\<open>completed\<close> nor
  \<^verbatim>\<open>canceled\<close>: when the request supplies a payment object, \<^verbatim>\<open>selected_instrument_id\<close>
  becomes the request's value (none when the request omits it), \<^verbatim>\<open>instruments\<close> is
  replaced only if supplied and is otherwise preserved, and the payment status is
  preserved; when the request omits the payment object the payment is untouched; when it
  omits \<^verbatim>\<open>line_items\<close> the line items, the totals and the messages are untouched; when it
  omits \<^verbatim>\<open>buyer\<close> the buyer is untouched.
\<close>

theorem update_checkout_merge:
  assumes "getCheckout st i = Some c" and "status c \<noteq> completed" and "status c \<noteq> canceled"
  shows "\<exists>c'. update_checkout st now rnd i body = ((200, CheckoutBody c'), saveCheckout c' st)
           \<and> (case ur_payment body of
                 None \<Rightarrow> payment c' = payment c
               | Some p \<Rightarrow>
                   selected_instrument_id (payment c') = req_selected_instrument_id p
                   \<and> instruments (payment c') =
                       (case req_instruments p of None \<Rightarrow> instruments (payment c)
                        | Some ins \<Rightarrow> ins)
                   \<and> payment_status (payment c') = payment_status (payment c))
           \<and> (ur_line_items body = None \<longrightarrow>
                 line_items c' = line_items c \<and> totals c' = totals c
                 \<and> messages c' = messages c)
           \<and> (ur_buyer body = None \<longrightarrow> buyer c' = buyer c)"
proof -
  let ?u = "update_buyer body (update_payment body (update_line_items st rnd body c))"
  let ?c' = "?u\<lparr>status := determineStatus ?u, expires_at := getExpiresAt st now\<rparr>"
  have r: "update_checkout st now rnd i body = ((200, CheckoutBody ?c'), saveCheckout ?c' st)"
    by (rule update_checkout_result [OF assms])
  have p: "payment ?c' = payment (update_payment body c)"
    by (simp add: update_buyer_frame update_payment_def update_line_items_frame
        split: option.splits)
  have pay: "case ur_payment body of
               None \<Rightarrow> payment ?c' = payment c
             | Some p \<Rightarrow>
                 selected_instrument_id (payment ?c') = req_selected_instrument_id p
                 \<and> instruments (payment ?c') =
                     (case req_instruments p of None \<Rightarrow> instruments (payment c)
                      | Some ins \<Rightarrow> ins)
                 \<and> payment_status (payment ?c') = payment_status (payment c)"
    unfolding p by (simp add: update_payment_def split: option.splits)
  have li: "ur_line_items body = None \<longrightarrow>
              line_items ?c' = line_items c \<and> totals ?c' = totals c
              \<and> messages ?c' = messages c"
    by (simp add: update_buyer_frame update_payment_frame update_line_items_omitted)
  have bu: "ur_buyer body = None \<longrightarrow> buyer ?c' = buyer c"
    by (simp add: update_buyer_def update_payment_frame update_line_items_frame)
  from r pay li bu show ?thesis by (intro exI [of _ ?c'] conjI)
qed


theorem update_checkout_merge_witness:
  "getCheckout demo_server ''c0ffee00-a'' = Some demo_session
   \<and> status demo_session \<noteq> completed \<and> status demo_session \<noteq> canceled
   \<and> (\<exists>c'. update_checkout demo_server 5 demo_uuid ''c0ffee00-a''
               \<lparr>ur_line_items = None,
                ur_payment = Some \<lparr>req_selected_instrument_id = Some ''card-1'',
                                   req_instruments = None\<rparr>,
                ur_buyer = None\<rparr>
             = ((200, CheckoutBody c'), saveCheckout c' demo_server)
           \<and> selected_instrument_id (payment c') = Some ''card-1''
           \<and> instruments (payment c') = instruments (payment demo_session)
           \<and> payment_status (payment c') = payment_status (payment demo_session)
           \<and> line_items c' = line_items demo_session \<and> totals c' = totals demo_session
           \<and> messages c' = messages demo_session
           \<and> buyer c' = buyer demo_session)"
proof -
  have n: "status demo_session \<noteq> completed" "status demo_session \<noteq> canceled"
    by (simp_all add: demo_session_def)
  from update_checkout_merge [OF getCheckout_demo n, of 5 demo_uuid
      "\<lparr>ur_line_items = None,
        ur_payment = Some \<lparr>req_selected_instrument_id = Some ''card-1'',
                           req_instruments = None\<rparr>,
        ur_buyer = None\<rparr>"]
    getCheckout_demo n
  show ?thesis by simp
qed

text \<open>
  C9. Update applies the request to a stored session that is neither \<^verbatim>\<open>completed\<close>
  nor \<^verbatim>\<open>canceled\<close>: the new line items are those resolved from the request's
  \<^verbatim>\<open>line_items\<close> when it has them and the old ones otherwise, and the new selected
  instrument is the one of the request's payment object when it has one and the old one
  otherwise. The status of the session it stores under the id is the one the decision
  table of \<section>4.3 gives for these new line items and this new selected instrument (an
  instrument is selected when the id is a non-empty string). In particular, when the
  session was \<^verbatim>\<open>ready_for_complete\<close> and the request's payment object carries no
  \<^verbatim>\<open>selected_instrument_id\<close>, the stored status is \<^verbatim>\<open>incomplete\<close>.
\<close>

theorem update_checkout_status:
  assumes "store_ok st" and "getCheckout st i = Some c"
    and "status c \<noteq> completed" and "status c \<noteq> canceled"
  shows "\<exists>c'. update_checkout st now rnd i body
               = ((200, CheckoutBody c'),
                  st\<lparr>checkoutSessions := (checkoutSessions st)(i \<mapsto> c')\<rparr>)
           \<and> line_items c' =
               (case ur_line_items body of
                  None \<Rightarrow> line_items c
                | Some reqs \<Rightarrow> fst (resolveLineItems st rnd reqs (currency c)))
           \<and> selected_instrument_id (payment c') =
               (case ur_payment body of
                  None \<Rightarrow> selected_instrument_id (payment c)
                | Some p \<Rightarrow> req_selected_instrument_id p)
           \<and> status c' = status_table (line_items c') (selected_instrument_id (payment c'))
           \<and> (status c = ready_for_complete
                \<and> (\<exists>p. ur_payment body = Some p \<and> req_selected_instrument_id p = None)
                \<longrightarrow> status c' = incomplete)"
proof -
  let ?u = "update_buyer body (update_payment body (update_line_items st rnd body c))"
  let ?c' = "?u\<lparr>status := determineStatus ?u, expires_at := getExpiresAt st now\<rparr>"
  from assms(1,2) have i: "co_id c = i" by (rule store_ok_id)
  have id: "co_id ?c' = i"
    using i by (simp add: update_buyer_frame update_payment_frame update_line_items_frame)
  have r: "update_checkout st now rnd i body
             = ((200, CheckoutBody ?c'),
                st\<lparr>checkoutSessions := (checkoutSessions st)(i \<mapsto> ?c')\<rparr>)"
    unfolding update_checkout_result [OF assms(2-4)] saveCheckout_def id ..
  have l: "line_items ?c' =
             (case ur_line_items body of
                None \<Rightarrow> line_items c
              | Some reqs \<Rightarrow> fst (resolveLineItems st rnd reqs (currency c)))"
    by (simp add: update_buyer_frame update_payment_frame update_line_items_def Let_def
        split: option.splits prod.splits)
  have p: "selected_instrument_id (payment ?c') =
             (case ur_payment body of
                None \<Rightarrow> selected_instrument_id (payment c)
              | Some p \<Rightarrow> req_selected_instrument_id p)"
    by (simp add: update_buyer_frame update_payment_def update_line_items_frame
        split: option.splits)
  have t: "status ?c' = status_table (line_items ?c') (selected_instrument_id (payment ?c'))"
    using determineStatus_table [of ?u] by simp
  have rm: "status c = ready_for_complete
              \<and> (\<exists>p. ur_payment body = Some p \<and> req_selected_instrument_id p = None)
            \<longrightarrow> status ?c' = incomplete"
  proof (intro impI, elim conjE exE)
    fix p
    assume "ur_payment body = Some p" and "req_selected_instrument_id p = None"
    then have "selected_instrument_id (payment ?u) = None"
      by (simp add: update_buyer_frame update_payment_def)
    then show "status ?c' = incomplete" by (simp add: determineStatus_def truthy_def)
  qed
  from r l p t rm show ?thesis by (intro exI [of _ ?c'] conjI)
qed

lemma update_demo_unselect:
  "update_checkout demo_server 5 demo_uuid ''c0ffee00-a''
     \<lparr>ur_line_items = None,
      ur_payment = Some \<lparr>req_selected_instrument_id = None, req_instruments = None\<rparr>,
      ur_buyer = None\<rparr>
   = ((200, CheckoutBody
              (demo_session
                 \<lparr>status := incomplete,
                  payment := \<lparr>selected_instrument_id = None,
                              instruments = default_instruments,
                              payment_status = pending\<rparr>,
                  expires_at := 21600005\<rparr>)),
      saveCheckout
        (demo_session
           \<lparr>status := incomplete,
            payment := \<lparr>selected_instrument_id = None,
                        instruments = default_instruments,
                        payment_status = pending\<rparr>,
            expires_at := 21600005\<rparr>) demo_server)"
proof -
  have n: "status demo_session \<noteq> completed" "status demo_session \<noteq> canceled"
    by (simp_all add: demo_session_def)
  show ?thesis
    unfolding update_checkout_result [OF getCheckout_demo n]
    by (simp add: update_line_items_def update_payment_def update_buyer_def determineStatus_def
        truthy_def getExpiresAt_demo)
       (simp add: demo_session_def)
qed

lemma update_demo_unpaid_select:
  "update_checkout demo_unpaid_server 5 demo_uuid ''c0ffee00-a''
     \<lparr>ur_line_items = None,
      ur_payment = Some \<lparr>req_selected_instrument_id = Some ''mock-instrument-1'',
                         req_instruments = None\<rparr>,
      ur_buyer = None\<rparr>
   = ((200, CheckoutBody (demo_session\<lparr>expires_at := 21600005\<rparr>)),
      saveCheckout (demo_session\<lparr>expires_at := 21600005\<rparr>) demo_unpaid_server)"
proof -
  have n: "status demo_unpaid \<noteq> completed" "status demo_unpaid \<noteq> canceled"
    by (simp_all add: demo_unpaid_def)
  show ?thesis
    unfolding update_checkout_result [OF getCheckout_demo_unpaid n]
    by (simp add: update_line_items_def update_payment_def update_buyer_def determineStatus_def
        truthy_def getExpiresAt_demo_unpaid)
       (simp add: demo_unpaid_def demo_session_def rose_item_def)
qed

theorem update_checkout_status_witness:
  "store_ok demo_server \<and> getCheckout demo_server ''c0ffee00-a'' = Some demo_session
   \<and> status demo_session = ready_for_complete
   \<and> fst (update_checkout demo_server 5 demo_uuid ''c0ffee00-a''
            \<lparr>ur_line_items = None,
             ur_payment = Some \<lparr>req_selected_instrument_id = None, req_instruments = None\<rparr>,
             ur_buyer = None\<rparr>)
      = (200, CheckoutBody
                (demo_session
                   \<lparr>status := incomplete,
                    payment := \<lparr>selected_instrument_id = None,
                                instruments = default_instruments,
                                payment_status = pending\<rparr>,
                    expires_at := 21600005\<rparr>))
   \<and> store_ok demo_unpaid_server
   \<and> getCheckout demo_unpaid_server ''c0ffee00-a'' = Some demo_unpaid
   \<and> status demo_unpaid = incomplete
   \<and> line_items demo_unpaid = [rose_item 2 ''c0ffee00-'']
   \<and> fst (update_checkout demo_unpaid_server 5 demo_uuid ''c0ffee00-a''
            \<lparr>ur_line_items = None,
             ur_payment = Some \<lparr>req_selected_instrument_id = Some ''mock-instrument-1'',
                                req_instruments = None\<rparr>,
             ur_buyer = None\<rparr>)
      = (200, CheckoutBody (demo_session\<lparr>expires_at := 21600005\<rparr>))
   \<and> status (demo_session\<lparr>expires_at := 21600005\<rparr>) = ready_for_complete
   \<and> status_table [rose_item 2 ''c0ffee00-''] (Some ''mock-instrument-1'')
       = ready_for_complete
   \<and> status_table [rose_item 2 ''c0ffee00-''] None = incomplete"
proof -
  have s: "status demo_session = ready_for_complete" "status demo_unpaid = incomplete"
    "line_items demo_unpaid = [rose_item 2 ''c0ffee00-'']"
    "line_items demo_session = [rose_item 2 ''c0ffee00-'']"
    "selected_instrument_id (payment demo_session) = Some ''mock-instrument-1''"
    by (simp_all add: demo_session_def demo_unpaid_def)
  have n: "status demo_session \<noteq> completed" "status demo_session \<noteq> canceled"
    "status demo_unpaid \<noteq> completed" "status demo_unpaid \<noteq> canceled"
    using s by simp_all
  from update_checkout_status [OF store_ok_demo getCheckout_demo n(1,2), of 5 demo_uuid
      "\<lparr>ur_line_items = None,
        ur_payment = Some \<lparr>req_selected_instrument_id = None, req_instruments = None\<rparr>,
        ur_buyer = None\<rparr>"]
  have a: "status_table [rose_item 2 ''c0ffee00-''] None = incomplete"
    unfolding update_demo_unselect using s by auto
  from update_checkout_status [OF store_ok_demo_unpaid getCheckout_demo_unpaid n(3,4),
      of 5 demo_uuid
      "\<lparr>ur_line_items = None,
        ur_payment = Some \<lparr>req_selected_instrument_id = Some ''mock-instrument-1'',
                           req_instruments = None\<rparr>,
        ur_buyer = None\<rparr>"]
  have b: "status_table [rose_item 2 ''c0ffee00-''] (Some ''mock-instrument-1'')
             = ready_for_complete"
    unfolding update_demo_unpaid_select using s by auto
  from a b s store_ok_demo getCheckout_demo store_ok_demo_unpaid getCheckout_demo_unpaid
  show ?thesis
    by (simp add: update_demo_unselect update_demo_unpaid_select)
qed

section \<open>Quantities are not validated\<close>

lemma map_filter_request_item_quantity:
  "map (\<lambda>(snapshot, q, u). q) (List.map_filter (request_item st cur) reqs)
     = map req_quantity (filter (\<lambda>r. product_accepted st cur (req_item_id r)) reqs)"
  by (induction reqs)
     (auto simp: request_item_def product_accepted_def split: option.splits)

lemma resolve_quantities:
  assumes "resolveLineItems st rnd reqs cur = (items, errors, k)"
  shows "map quantity items
           = map req_quantity (filter (\<lambda>r. product_accepted st cur (req_item_id r)) reqs)"
proof -
  from assms have "resolve_loop st cur rnd reqs 0 [] [] = (items, errors, k)"
    by (simp add: resolveLineItems_def)
  from resolve_loop_spec [OF this]
  have "map item_content items = List.map_filter (request_item st cur) reqs" by simp
  then have "map (\<lambda>(snapshot, q, u). q) (map item_content items)
               = map (\<lambda>(snapshot, q, u). q) (List.map_filter (request_item st cur) reqs)"
    by simp
  moreover have "map (\<lambda>(snapshot, q, u). q) (map item_content items) = map quantity items"
    by (simp add: item_content_def)
  ultimately show ?thesis by (simp add: map_filter_request_item_quantity)
qed

lemma resolve_total_prices:
  assumes "resolveLineItems st rnd reqs cur = (items, errors, k)"
  shows "\<forall>it \<in> set items. \<bar>unit_price it * quantity it\<bar> \<le> 2 ^ 53 \<longrightarrow>
           total_price it = unit_price it * quantity it"
proof -
  from assms have "resolve_loop st cur rnd reqs 0 [] [] = (items, errors, k)"
    by (simp add: resolveLineItems_def)
  from resolve_loop_total_price [OF this]
  have "\<forall>it \<in> set items. total_price it = js_times (unit_price it) (quantity it)" by simp
  then show ?thesis by (simp add: js_times_exact)
qed

lemma resolve_single:
  assumes "getProduct st pid = Some p" and "p_in_stock p" and "p_currency p = cur"
  shows "resolveLineItems st rnd [\<lparr>req_item_id = pid, req_quantity = q\<rparr>] cur =
           ([\<lparr>li_id = rnd 0,
              li_item = \<lparr>item_id = p_id p, item_name = p_name p,
                         item_description = p_description p,
                         item_image_url = p_image_url p\<rparr>,
              quantity = q, unit_price = p_price p,
              total_price = js_times (p_price p) q\<rparr>], [], 1)"
  using assms by (simp add: resolveLineItems_def)

lemma create_accepts:
  assumes "reqs \<noteq> []" and "cur \<noteq> []"
  shows "\<exists>c. create_checkout st now rnd
               \<lparr>cr_line_items = Some reqs, cr_currency = Some cur, cr_payment = pay,
                cr_buyer = b\<rparr>
             = ((201, CheckoutBody c),
                st\<lparr>checkoutSessions := (checkoutSessions st)(co_id c \<mapsto> c)\<rparr>)
           \<and> line_items c = fst (resolveLineItems st rnd reqs cur)
           \<and> totals c = calculateTotals (line_items c)"
  using assms
  by (simp add: create_checkout_def Let_def saveCheckout_def split: prod.splits)

lemma update_accepts:
  assumes "getCheckout st i = Some s" and "status s \<noteq> completed" and "status s \<noteq> canceled"
  shows "\<exists>c. update_checkout st now rnd i
               \<lparr>ur_line_items = Some reqs, ur_payment = pay, ur_buyer = b\<rparr>
             = ((200, CheckoutBody c),
                st\<lparr>checkoutSessions := (checkoutSessions st)(co_id c \<mapsto> c)\<rparr>)
           \<and> line_items c = fst (resolveLineItems st rnd reqs (currency s))
           \<and> totals c = calculateTotals (line_items c)"
proof -
  let ?body = "\<lparr>ur_line_items = Some reqs, ur_payment = pay, ur_buyer = b\<rparr>"
  let ?u = "update_buyer ?body (update_payment ?body (update_line_items st rnd ?body s))"
  let ?c = "?u\<lparr>status := determineStatus ?u, expires_at := getExpiresAt st now\<rparr>"
  have r: "update_checkout st now rnd i ?body
             = ((200, CheckoutBody ?c),
                st\<lparr>checkoutSessions := (checkoutSessions st)(co_id ?c \<mapsto> ?c)\<rparr>)"
    unfolding update_checkout_result [OF assms] saveCheckout_def ..
  have l: "line_items ?c = fst (resolveLineItems st rnd reqs (currency s))"
    by (simp add: update_buyer_frame update_payment_frame update_line_items_def Let_def
        split: prod.splits)
  have t: "totals ?c = calculateTotals (line_items ?c)"
    by (simp add: update_buyer_frame update_payment_frame update_line_items_def Let_def
        split: prod.splits)
  from r l t show ?thesis by (intro exI [of _ ?c] conjI)
qed

lemma totals_no_roses:
  "calculateTotals [rose_item 0 u] =
     \<lparr>subtotal = 0, tax = 0, shipping = 599, discount = 0, total_amount = 599\<rparr>"
  by (simp add: calculateTotals_def rose_item_def js_exact tax_0)

lemma totals_minus_one_rose:
  "calculateTotals [rose_item (- 1) u] =
     \<lparr>subtotal = - 4999, tax = - 437, shipping = 599, discount = 0, total_amount = - 4837\<rparr>"
  by (simp add: calculateTotals_def rose_item_def js_exact tax_minus_4999)

lemma totals_roses_against_tulips:
  "calculateTotals [rose_item 1047 u, tulip_item (- 1496) v] =
     \<lparr>subtotal = - 551, tax = - 48, shipping = 599, discount = 0, total_amount = 0\<rparr>"
  by (simp add: calculateTotals_def rose_item_def tulip_item_def js_exact tax_minus_551)

lemma resolve_roses:
  "resolveLineItems initial_server rnd (roses q) ''USD'' = ([rose_item q (rnd 0)], [], 1)"
  by (simp add: roses_def resolve_single [OF getProduct_rose] rose_item_def)

lemma resolve_roses_and_tulips:
  "resolveLineItems initial_server rnd (roses_and_tulips q r) ''USD''
     = ([rose_item q (rnd 0), tulip_item r (rnd 1)], [], 2)"
  by (simp add: roses_and_tulips_def resolveLineItems_def getProduct_rose getProduct_tulip
      rose_item_def tulip_item_def)

lemma create_request_totals:
  assumes "resolveLineItems initial_server rnd reqs ''USD'' = (items, [], k)" and "reqs \<noteq> []"
  shows "\<exists>c st'. create_checkout initial_server now rnd (create_request reqs)
                   = ((201, CheckoutBody c), st')
                 \<and> totals c = calculateTotals items"
  using assms by (simp add: create_checkout_def create_request_def Let_def)

lemma large_sums:
  "js_plus 0 (- 9007199254744008) = - 9007199254744008"
  "Math_round (times_TAX_RATE (- 9007199254744008)) = - 788129934790101"
  "js_plus (- 9007199254744008) (- 788129934790101) = - 9795329189534108"
  "js_plus (- 9795329189534108) 599 = - 9795329189533508"
  "js_minus (- 9795329189533508) 0 = - 9795329189533508"
  by (simp_all add: js_plus_def js_minus_def tax_eval)

lemma totals_large:
  "calculateTotals [rose_item (- 1801800210991) u] =
     \<lparr>subtotal = - 9007199254744008, tax = - 788129934790101, shipping = 599, discount = 0,
      total_amount = - 9795329189533508\<rparr>"
  by (simp add: calculateTotals_def rose_item_def js_times_large Let_def large_sums)

lemma resolve_mixed_quantities:
  "resolveLineItems initial_server demo_uuid
     [\<lparr>req_item_id = ''rose-bouquet'', req_quantity = - 3\<rparr>,
      \<lparr>req_item_id = ''peony'', req_quantity = 5\<rparr>,
      \<lparr>req_item_id = ''tulip-arrangement'', req_quantity = 0\<rparr>] ''USD''
   = ([rose_item (- 3) ''c0ffee00-'', tulip_item 0 ''c0ffee00-a''],
      [''Product not found: peony''], 2)"
  by (simp add: resolveLineItems_def getProduct_rose getProduct_tulip getProduct_unknown
      rose_item_def tulip_item_def demo_uuid_def)

text \<open>
  C10, as stated, fails: it says that the line item emitted for any integer quantity has
  the total price unit price \<times> quantity. The code multiplies and adds doubles. Create
  for -1801800210991 rose bouquets answers 201 with a line item whose total price is
  -9007199254744008, where 4999 \<times> -1801800210991 is -9007199254744009 (and with the total
  -9795329189533508, where subtotal + tax + shipping is -9795329189533510).
\<close>

theorem quantity_total_price_rounded:
  "create_checkout initial_server 0 demo_uuid (create_request (roses (- 1801800210991)))
     = ((201, CheckoutBody
                (demo_unpaid
                   \<lparr>line_items :=
                      [\<lparr>li_id = ''c0ffee00-'',
                        li_item =
                          \<lparr>item_id = ''rose-bouquet'', item_name = ''Classic Rose Bouquet'',
                           item_description = ''A dozen fresh red roses, beautifully arranged'',
                           item_image_url =
                             Some ''https://example.com/images/rose-bouquet.jpg''\<rparr>,
                        quantity = - 1801800210991, unit_price = 4999,
                        total_price = - 9007199254744008\<rparr>],
                    totals :=
                      \<lparr>subtotal = - 9007199254744008, tax = - 788129934790101,
                       shipping = 599, discount = 0,
                       total_amount = - 9795329189533508\<rparr>\<rparr>)),
        saveCheckout
          (demo_unpaid
             \<lparr>line_items :=
                [\<lparr>li_id = ''c0ffee00-'',
                  li_item =
                    \<lparr>item_id = ''rose-bouquet'', item_name = ''Classic Rose Bouquet'',
                     item_description = ''A dozen fresh red roses, beautifully arranged'',
                     item_image_url =
                       Some ''https://example.com/images/rose-bouquet.jpg''\<rparr>,
                  quantity = - 1801800210991, unit_price = 4999,
                  total_price = - 9007199254744008\<rparr>],
              totals :=
                \<lparr>subtotal = - 9007199254744008, tax = - 788129934790101,
                 shipping = 599, discount = 0,
                 total_amount = - 9795329189533508\<rparr>\<rparr>) initial_server)
   \<and> (4999::int) * (- 1801800210991) = - 9007199254744009
   \<and> (- 9007199254744008::int) + (- 788129934790101) + 599 - 0 = - 9795329189533510"
  by (simp add: create_checkout_def create_request_def roses_def resolve_roses [unfolded roses_def]
      totals_large demo_session_def demo_unpaid_def determineStatus_def truthy_def
      UCP_VERSION_def getExpiresAt_initial demo_uuid_def Let_def)
     (simp add: rose_item_def js_times_large)

text \<open>
  C10, amended. The quantity is never validated. For every request list and currency,
  the line items \<^verbatim>\<open>resolveLineItems\<close> emits carry, in order, the quantities of exactly
  those requests whose product exists, is in stock and has the requested currency,
  whatever these quantities are (zero and negative ones too); the request for one such
  product gives one line item and no error for every integer quantity \<open>q\<close>. The
  total price of an item equals unit price \<times> quantity whenever that product is at most
  \<open>2 ^ 53\<close> in magnitude. Create answers 201 to every non-empty request list with a
  currency, and Update answers 200 to every request list on a session that is neither
  \<^verbatim>\<open>completed\<close> nor \<^verbatim>\<open>canceled\<close>; both store the session with the resolved line
  items and their totals. So a session's subtotal and total can be zero or negative: with
  the sample catalog, Create for 0 rose bouquets gives the subtotal 0; for -1 rose
  bouquets the subtotal -4999 and the total -4837; for 1047 rose bouquets and -1496
  tulip arrangements the subtotal -551 and the total 0.
\<close>

theorem quantity_never_validated:
  "(resolveLineItems st rnd reqs cur = (items, errors, k) \<longrightarrow>
      map quantity items
        = map req_quantity (filter (\<lambda>r. product_accepted st cur (req_item_id r)) reqs)
      \<and> (\<forall>it \<in> set items. \<bar>unit_price it * quantity it\<bar> \<le> 2 ^ 53 \<longrightarrow>
             total_price it = unit_price it * quantity it))
   \<and> (getProduct st pid = Some p \<and> p_in_stock p \<and> p_currency p = cur \<longrightarrow>
        (\<exists>t. resolveLineItems st rnd [\<lparr>req_item_id = pid, req_quantity = q\<rparr>] cur =
               ([\<lparr>li_id = rnd 0,
                  li_item = \<lparr>item_id = p_id p, item_name = p_name p,
                             item_description = p_description p,
                             item_image_url = p_image_url p\<rparr>,
                  quantity = q, unit_price = p_price p, total_price = t\<rparr>], [], 1)
             \<and> (\<bar>p_price p * q\<bar> \<le> 2 ^ 53 \<longrightarrow> t = p_price p * q)))
   \<and> (reqs \<noteq> [] \<and> cur \<noteq> [] \<longrightarrow>
        (\<exists>c. create_checkout st now rnd
                \<lparr>cr_line_items = Some reqs, cr_currency = Some cur, cr_payment = pay,
                 cr_buyer = b\<rparr>
              = ((201, CheckoutBody c),
                 st\<lparr>checkoutSessions := (checkoutSessions st)(co_id c \<mapsto> c)\<rparr>)
            \<and> line_items c = fst (resolveLineItems st rnd reqs cur)
            \<and> totals c = calculateTotals (line_items c)))
   \<and> (getCheckout st i = Some s \<and> status s \<noteq> completed \<and> status s \<noteq> canceled \<longrightarrow>
        (\<exists>c. update_checkout st now rnd i
                \<lparr>ur_line_items = Some reqs, ur_payment = upay, ur_buyer = b\<rparr>
              = ((200, CheckoutBody c),
                 st\<lparr>checkoutSessions := (checkoutSessions st)(co_id c \<mapsto> c)\<rparr>)
            \<and> line_items c = fst (resolveLineItems st rnd reqs (currency s))
            \<and> totals c = calculateTotals (line_items c)))
   \<and> (\<exists>c st'. create_checkout initial_server 0 demo_uuid (create_request (roses 0))
                  = ((201, CheckoutBody c), st')
               \<and> totals c = \<lparr>subtotal = 0, tax = 0, shipping = 599, discount = 0,
                              total_amount = 599\<rparr>)
   \<and> (\<exists>c st'. create_checkout initial_server 0 demo_uuid (create_request (roses (- 1)))
                  = ((201, CheckoutBody c), st')
               \<and> totals c = \<lparr>subtotal = - 4999, tax = - 437, shipping = 599, discount = 0,
                              total_amount = - 4837\<rparr>)
   \<and> (\<exists>c st'. create_checkout initial_server 0 demo_uuid
                    (create_request (roses_and_tulips 1047 (- 1496)))
                  = ((201, CheckoutBody c), st')
               \<and> totals c = \<lparr>subtotal = - 551, tax = - 48, shipping = 599, discount = 0,
                              total_amount = 0\<rparr>)"
proof (intro conjI impI)
  assume a: "resolveLineItems st rnd reqs cur = (items, errors, k)"
  from resolve_quantities [OF a]
  show "map quantity items
          = map req_quantity (filter (\<lambda>r. product_accepted st cur (req_item_id r)) reqs)" .
  from resolve_total_prices [OF a]
  show "\<forall>it \<in> set items. \<bar>unit_price it * quantity it\<bar> \<le> 2 ^ 53 \<longrightarrow>
          total_price it = unit_price it * quantity it" .
next
  assume "getProduct st pid = Some p \<and> p_in_stock p \<and> p_currency p = cur"
  then have "getProduct st pid = Some p" "p_in_stock p" "p_currency p = cur" by simp_all
  from resolve_single [OF this, of rnd q]
  show "\<exists>t. resolveLineItems st rnd [\<lparr>req_item_id = pid, req_quantity = q\<rparr>] cur =
               ([\<lparr>li_id = rnd 0,
                  li_item = \<lparr>item_id = p_id p, item_name = p_name p,
                             item_description = p_description p,
                             item_image_url = p_image_url p\<rparr>,
                  quantity = q, unit_price = p_price p, total_price = t\<rparr>], [], 1)
             \<and> (\<bar>p_price p * q\<bar> \<le> 2 ^ 53 \<longrightarrow> t = p_price p * q)"
    by (simp add: js_times_exact)
next
  assume "reqs \<noteq> [] \<and> cur \<noteq> []"
  then have "reqs \<noteq> []" "cur \<noteq> []" by simp_all
  then show "\<exists>c. create_checkout st now rnd
                \<lparr>cr_line_items = Some reqs, cr_currency = Some cur, cr_payment = pay,
                 cr_buyer = b\<rparr>
              = ((201, CheckoutBody c),
                 st\<lparr>checkoutSessions := (checkoutSessions st)(co_id c \<mapsto> c)\<rparr>)
            \<and> line_items c = fst (resolveLineItems st rnd reqs cur)
            \<and> totals c = calculateTotals (line_items c)"
    by (rule create_accepts)
next
  assume "getCheckout st i = Some s \<and> status s \<noteq> completed \<and> status s \<noteq> canceled"
  then have "getCheckout st i = Some s" "status s \<noteq> completed" "status s \<noteq> canceled"
    by simp_all
  then show "\<exists>c. update_checkout st now rnd i
                \<lparr>ur_line_items = Some reqs, ur_payment = upay, ur_buyer = b\<rparr>
              = ((200, CheckoutBody c),
                 st\<lparr>checkoutSessions := (checkoutSessions st)(co_id c \<mapsto> c)\<rparr>)
            \<and> line_items c = fst (resolveLineItems st rnd reqs (currency s))
            \<and> totals c = calculateTotals (line_items c)"
    by (rule update_accepts)
next
  have "roses 0 \<noteq> []" by (simp add: roses_def)
  from create_request_totals [OF resolve_roses this, where now = 0 and rnd = demo_uuid]
  show "\<exists>c st'. create_checkout initial_server 0 demo_uuid (create_request (roses 0))
                  = ((201, CheckoutBody c), st')
               \<and> totals c = \<lparr>subtotal = 0, tax = 0, shipping = 599, discount = 0,
                              total_amount = 599\<rparr>"
    by (simp add: totals_no_roses)
next
  have "roses (- 1) \<noteq> []" by (simp add: roses_def)
  from create_request_totals [OF resolve_roses this, where now = 0 and rnd = demo_uuid]
  show "\<exists>c st'. create_checkout initial_server 0 demo_uuid (create_request (roses (- 1)))
                  = ((201, CheckoutBody c), st')
               \<and> totals c = \<lparr>subtotal = - 4999, tax = - 437, shipping = 599, discount = 0,
                              total_amount = - 4837\<rparr>"
    by (simp add: totals_minus_one_rose)
next
  have "roses_and_tulips 1047 (- 1496) \<noteq> []" by (simp add: roses_and_tulips_def)
  from create_request_totals [OF resolve_roses_and_tulips this,
      where now = 0 and rnd = demo_uuid]
  show "\<exists>c st'. create_checkout initial_server 0 demo_uuid
                    (create_request (roses_and_tulips 1047 (- 1496)))
                  = ((201, CheckoutBody c), st')
               \<and> totals c = \<lparr>subtotal = - 551, tax = - 48, shipping = 599, discount = 0,
                              total_amount = 0\<rparr>"
    by (simp add: totals_roses_against_tulips)
qed

theorem quantity_never_validated_witness:
  "resolveLineItems initial_server demo_uuid
     [\<lparr>req_item_id = ''rose-bouquet'', req_quantity = - 3\<rparr>,
      \<lparr>req_item_id = ''peony'', req_quantity = 5\<rparr>,
      \<lparr>req_item_id = ''tulip-arrangement'', req_quantity = 0\<rparr>] ''USD''
   = ([rose_item (- 3) ''c0ffee00-'', tulip_item 0 ''c0ffee00-a''],
      [''Product not found: peony''], 2)
   \<and> map req_quantity
        (filter (\<lambda>r. product_accepted initial_server ''USD'' (req_item_id r))
           [\<lparr>req_item_id = ''rose-bouquet'', req_quantity = - 3\<rparr>,
            \<lparr>req_item_id = ''peony'', req_quantity = 5\<rparr>,
            \<lparr>req_item_id = ''tulip-arrangement'', req_quantity = 0\<rparr>])
       = [- 3, 0]
   \<and> \<bar>unit_price (rose_item (- 3) ''c0ffee00-'') * quantity (rose_item (- 3) ''c0ffee00-'')\<bar>
       \<le> 2 ^ 53
   \<and> total_price (rose_item (- 3) ''c0ffee00-'') = - 14997
   \<and> total_price (tulip_item 0 ''c0ffee00-a'') = 0
   \<and> getProduct initial_server ''rose-bouquet'' \<noteq> None
   \<and> (\<exists>c. create_checkout initial_server 0 demo_uuid
              \<lparr>cr_line_items =
                 Some [\<lparr>req_item_id = ''rose-bouquet'', req_quantity = - 3\<rparr>,
                       \<lparr>req_item_id = ''peony'', req_quantity = 5\<rparr>,
                       \<lparr>req_item_id = ''tulip-arrangement'', req_quantity = 0\<rparr>],
               cr_currency = Some ''USD'', cr_payment = None, cr_buyer = None\<rparr>
            = ((201, CheckoutBody c),
               initial_server
                 \<lparr>checkoutSessions := (checkoutSessions initial_server)(co_id c \<mapsto> c)\<rparr>)
          \<and> line_items c = [rose_item (- 3) ''c0ffee00-'', tulip_item 0 ''c0ffee00-a'']
          \<and> totals c = calculateTotals (line_items c))
   \<and> getCheckout demo_server ''c0ffee00-a'' = Some demo_session
   \<and> status demo_session \<noteq> completed \<and> status demo_session \<noteq> canceled
   \<and> (\<exists>c. update_checkout demo_server 5 demo_uuid ''c0ffee00-a''
              \<lparr>ur_line_items = Some [\<lparr>req_item_id = ''rose-bouquet'', req_quantity = 0\<rparr>],
               ur_payment = None, ur_buyer = None\<rparr>
            = ((200, CheckoutBody c),
               demo_server
                 \<lparr>checkoutSessions := (checkoutSessions demo_server)(co_id c \<mapsto> c)\<rparr>)
          \<and> line_items c = [rose_item 0 ''c0ffee00-'']
          \<and> totals c = calculateTotals (line_items c))
   \<and> calculateTotals [rose_item 0 ''c0ffee00-'']
       = \<lparr>subtotal = 0, tax = 0, shipping = 599, discount = 0, total_amount = 599\<rparr>"
proof -
  let ?rose = "\<lparr>p_id = ''rose-bouquet'', p_name = ''Classic Rose Bouquet'',
                p_description = ''A dozen fresh red roses, beautifully arranged'',
                p_price = 4999, p_currency = ''USD'',
                p_image_url = Some ''https://example.com/images/rose-bouquet.jpg'',
                p_in_stock = True\<rparr>"
  let ?reqs = "[\<lparr>req_item_id = ''rose-bouquet'', req_quantity = - 3\<rparr>,
                \<lparr>req_item_id = ''peony'', req_quantity = 5\<rparr>,
                \<lparr>req_item_id = ''tulip-arrangement'', req_quantity = 0\<rparr>]"
  let ?items = "[rose_item (- 3) ''c0ffee00-'', tulip_item 0 ''c0ffee00-a'']"
  have g: "getProduct demo_server ''rose-bouquet'' = Some ?rose"
    using getProduct_rose
    by (simp add: getProduct_def demo_server_def products_saveCheckout)
  have s: "status demo_session \<noteq> completed" "status demo_session \<noteq> canceled"
    "currency demo_session = ''USD''"
    by (simp_all add: demo_session_def)
  have ru: "resolveLineItems demo_server demo_uuid
              [\<lparr>req_item_id = ''rose-bouquet'', req_quantity = 0\<rparr>] ''USD''
            = ([rose_item 0 ''c0ffee00-''], [], 1)"
    by (simp add: resolve_single [OF g] rose_item_def demo_uuid_def)
  have f: "map req_quantity
             (filter (\<lambda>r. product_accepted initial_server ''USD'' (req_item_id r)) ?reqs)
           = [- 3, 0]"
    by (simp add: product_accepted_def getProduct_rose getProduct_tulip getProduct_unknown)
  have v: "\<bar>unit_price (rose_item (- 3) ''c0ffee00-'')
              * quantity (rose_item (- 3) ''c0ffee00-'')\<bar> \<le> 2 ^ 53"
    "unit_price (rose_item (- 3) ''c0ffee00-'') * quantity (rose_item (- 3) ''c0ffee00-'')
       = - 14997"
    "\<bar>unit_price (tulip_item 0 ''c0ffee00-a'') * quantity (tulip_item 0 ''c0ffee00-a'')\<bar>
       \<le> 2 ^ 53"
    "unit_price (tulip_item 0 ''c0ffee00-a'') * quantity (tulip_item 0 ''c0ffee00-a'') = 0"
    by (simp_all add: rose_item_def tulip_item_def)
  note t1 = quantity_never_validated [where st = initial_server and rnd = demo_uuid
      and reqs = ?reqs and cur = "''USD''" and items = ?items
      and errors = "[''Product not found: peony'']" and k = 2
      and pid = "''rose-bouquet''" and p = ?rose and q = "- 3" and now = 0
      and pay = None and b = None and i = "[]" and s = demo_session and upay = None]
  note t2 = quantity_never_validated [where st = demo_server and rnd = demo_uuid
      and reqs = "[\<lparr>req_item_id = ''rose-bouquet'', req_quantity = 0\<rparr>]"
      and cur = "''USD''" and items = "[rose_item 0 ''c0ffee00-'']"
      and errors = "[]" and k = 1
      and pid = "''rose-bouquet''" and p = ?rose and q = 0 and now = 5
      and pay = None and b = None and i = "''c0ffee00-a''" and s = demo_session
      and upay = None]
  from t1 resolve_mixed_quantities v have
    a: "total_price (rose_item (- 3) ''c0ffee00-'') = - 14997"
    and a': "total_price (tulip_item 0 ''c0ffee00-a'') = 0"
    by simp_all
  from t1 resolve_mixed_quantities have
    b: "\<exists>c. create_checkout initial_server 0 demo_uuid
              \<lparr>cr_line_items = Some ?reqs,
               cr_currency = Some ''USD'', cr_payment = None, cr_buyer = None\<rparr>
            = ((201, CheckoutBody c),
               initial_server
                 \<lparr>checkoutSessions := (checkoutSessions initial_server)(co_id c \<mapsto> c)\<rparr>)
          \<and> line_items c = ?items
          \<and> totals c = calculateTotals (line_items c)"
    by simp
  from t2 getCheckout_demo s ru have
    c: "\<exists>c. update_checkout demo_server 5 demo_uuid ''c0ffee00-a''
              \<lparr>ur_line_items = Some [\<lparr>req_item_id = ''rose-bouquet'', req_quantity = 0\<rparr>],
               ur_payment = None, ur_buyer = None\<rparr>
            = ((200, CheckoutBody c),
               demo_server
                 \<lparr>checkoutSessions := (checkoutSessions demo_server)(co_id c \<mapsto> c)\<rparr>)
          \<and> line_items c = [rose_item 0 ''c0ffee00-'']
          \<and> totals c = calculateTotals (line_items c)"
    by simp
  from resolve_mixed_quantities f v(1) a a' b c getProduct_rose getCheckout_demo s(1,2)
    totals_no_roses [of "''c0ffee00-''"]
  show ?thesis by (simp only: simp_thms option.distinct not_False_eq_True)
qed

end
